theory Spec2Isabelle
  imports Complex_Main
begin

section \<open>N-body simulation of a collapsing particle cloud (n-body.py)\<close>

text \<open>
  The embedding follows \<^verbatim>\<open>n-body.py\<close>. NumPy's float64 numbers are modelled by the
  reals: rounding, overflow, infinities and NaN are not part of the model. The module's
  global arrays become one record that every function takes and returns, and the files
  that the module writes and reads become a map from file names to contents.
\<close>

subsection \<open>Three-component vectors\<close>

text \<open>A column \<^verbatim>\<open>A[:,i]\<close> of a \<^verbatim>\<open>3 x N\<close> array.\<close>

datatype vec3 = Vec3 real real real

definition vzero :: vec3 where
  "vzero = Vec3 0 0 0"

fun vadd :: "vec3 \<Rightarrow> vec3 \<Rightarrow> vec3" where
  "vadd (Vec3 a b c) (Vec3 x y z) = Vec3 (a + x) (b + y) (c + z)"

fun vsub :: "vec3 \<Rightarrow> vec3 \<Rightarrow> vec3" where
  "vsub (Vec3 a b c) (Vec3 x y z) = Vec3 (a - x) (b - y) (c - z)"

text \<open>Product of a vector with a scalar, \<^verbatim>\<open>k * v\<close> or \<^verbatim>\<open>v * k\<close>.\<close>

fun smul :: "real \<Rightarrow> vec3 \<Rightarrow> vec3" where
  "smul k (Vec3 x y z) = Vec3 (k * x) (k * y) (k * z)"

text \<open>\<^verbatim>\<open>np.linalg.norm\<close> of a vector.\<close>

fun vnorm :: "vec3 \<Rightarrow> real" where
  "vnorm (Vec3 x y z) = sqrt (x * x + y * y + z * z)"

datatype error = IndexError | DivideByZero | ValueError | FileNotFoundError

text \<open>
  \<^verbatim>\<open>np.divide(v, d)\<close>. With a zero denominator NumPy warns and yields inf or nan; the reals
  have no such values (and HOL's \<open>x / 0\<close> is \<open>0\<close>), so the model makes that outcome the
  error value \<open>DivideByZero\<close>.
\<close>

fun vdiv :: "vec3 \<Rightarrow> real \<Rightarrow> error + vec3" where
  "vdiv (Vec3 x y z) d = (if d = 0 then Inl DivideByZero else Inr (Vec3 (x / d) (y / d) (z / d)))"

subsection \<open>Constants and state\<close>

text \<open>
  The scalar constants of the module that are written as literals. The source fixes
  \<^verbatim>\<open>N = 500\<close>, \<^verbatim>\<open>Gm = 5000000\<close>, \<^verbatim>\<open>dt = 0.001\<close>, \<^verbatim>\<open>SmallDiam = 12\<close>,
  \<^verbatim>\<open>VelDecreaseFactor = 0.95\<close>, \<^verbatim>\<open>GenCubeLength = 500\<close>, \<^verbatim>\<open>Vel0 = 5000\<close>.
\<close>

record params =
  N :: nat
  Gm :: real
  dt :: real
  SmallDiam :: real
  VelDecreaseFactor :: real
  GenCubeLength :: real
  Vel0 :: real

definition src_params :: params where
  "src_params = \<lparr> N = 500, Gm = 5000000, dt = 0.001, SmallDiam = 12,
                   VelDecreaseFactor = 0.95, GenCubeLength = 500, Vel0 = 5000 \<rparr>"

text \<open>The constants the module derives from them.\<close>

definition GM :: "params \<Rightarrow> real" where
  "GM p = Gm p * 10000"

definition SpaceLength :: "params \<Rightarrow> real" where
  "SpaceLength p = 7 * GenCubeLength p"

definition LargeRadius :: "params \<Rightarrow> real" where
  "LargeRadius p = GenCubeLength p / 10"

definition HeavyMassLoc :: "params \<Rightarrow> vec3" where
  "HeavyMassLoc p = smul (SpaceLength p / 2) (Vec3 1 1 1)"

text \<open>
  The global arrays. The flags hold \<open>0\<close> or \<open>1\<close>. \<open>TimeSeries s ! t ! i\<close> is the
  column \<^verbatim>\<open>TimeSeries[:,i,t]\<close>.
\<close>

record state =
  isInContact :: "nat list"
  hasFallen :: "nat list"
  AccRad :: "vec3 list"
  AccInt :: "vec3 list"
  Loc :: "vec3 list"
  VelRad :: "vec3 list"
  VelInt :: "vec3 list"
  TimeSeries :: "vec3 list list"

text \<open>Every per-body array is allocated with \<^verbatim>\<open>N\<close> columns.\<close>

definition wf :: "params \<Rightarrow> state \<Rightarrow> bool" where
  "wf p s = (length (isInContact s) = N p \<and> length (hasFallen s) = N p \<and>
             length (AccRad s) = N p \<and> length (AccInt s) = N p \<and>
             length (Loc s) = N p \<and> length (VelRad s) = N p \<and> length (VelInt s) = N p)"

subsection \<open>Initialisation\<close>

text \<open>\<^verbatim>\<open>int(x)\<close> of a float: truncation towards zero.\<close>

definition pyint :: "real \<Rightarrow> int" where
  "pyint x = (if 0 \<le> x then \<lfloor>x\<rfloor> else \<lceil>x\<rceil>)"

text \<open>\<^verbatim>\<open>list(range(lo, hi))\<close>.\<close>

definition pyrange :: "int \<Rightarrow> int \<Rightarrow> int list" where
  "pyrange lo hi = map (\<lambda>k. lo + int k) [0..<nat (hi - lo)]"

definition GenCubeCentre :: "params \<Rightarrow> real" where
  "GenCubeCentre p = (SpaceLength p - LargeRadius p) / 4"

definition xValues :: "params \<Rightarrow> int list" where
  "xValues p = pyrange (pyint (GenCubeCentre p - GenCubeLength p / 2))
                       (pyint (GenCubeCentre p + GenCubeLength p / 2))"

definition yValues :: "params \<Rightarrow> int list" where
  "yValues p = pyrange (pyint (SpaceLength p / 2 - GenCubeLength p / 2))
                       (pyint (SpaceLength p / 2 + GenCubeLength p / 2))"

text \<open>
  The body of the loop of \<^verbatim>\<open>initialiseStates\<close> for one \<open>i\<close>. \<open>x\<close>, \<open>y\<close> and \<open>z\<close> are
  the three lists after \<^verbatim>\<open>random.shuffle\<close>; reading a list beyond its end raises.
\<close>

definition initBody :: "params \<Rightarrow> int list \<Rightarrow> int list \<Rightarrow> int list \<Rightarrow> nat \<Rightarrow> state \<Rightarrow> error + state" where
  "initBody p x y z i s =
     (if i < length x \<and> i < length y \<and> i < length z \<and> i < N p then
        Inr (s\<lparr> Loc := (Loc s)[i := Vec3 (real_of_int (x ! i)) (real_of_int (y ! i)) (real_of_int (z ! i))],
               VelRad := (VelRad s)[i := Vec3 0 (Vel0 p) 0],
               VelInt := (VelInt s)[i := Vec3 0 0 0] \<rparr>)
      else Inl IndexError)"

fun initLoop :: "params \<Rightarrow> int list \<Rightarrow> int list \<Rightarrow> int list \<Rightarrow> nat list \<Rightarrow> state \<Rightarrow> error + state" where
  "initLoop p x y z [] s = Inr s"
| "initLoop p x y z (i # is) s =
     (case initBody p x y z i s of Inl e \<Rightarrow> Inl e | Inr s' \<Rightarrow> initLoop p x y z is s')"

text \<open>
  \<^verbatim>\<open>initialiseStates\<close>, with the outcome of the three shuffles as arguments: \<open>x\<close> is a
  permutation of \<open>xValues p\<close>, \<open>y\<close> and \<open>z\<close> are permutations of \<open>yValues p\<close>.
\<close>

definition initialiseStates :: "params \<Rightarrow> int list \<Rightarrow> int list \<Rightarrow> int list \<Rightarrow> state \<Rightarrow> error + state" where
  "initialiseStates p x y z s = initLoop p x y z [0..<N p - 1] s"

subsection \<open>Acceleration of one body\<close>

text \<open>
  The loop over \<open>j\<close> inside \<^verbatim>\<open>findCurrentAcc\<close>: it threads the state (for
  \<^verbatim>\<open>isInContact[i]\<close>) and the accumulator \<^verbatim>\<open>r_Abs_r3\<close>.
\<close>

fun pairLoop :: "params \<Rightarrow> nat \<Rightarrow> nat list \<Rightarrow> state \<Rightarrow> vec3 \<Rightarrow> error + (state \<times> vec3)" where
  "pairLoop p i [] s acc = Inr (s, acc)"
| "pairLoop p i (j # js) s acc =
     (if j \<noteq> i then
        (let r = vsub (Loc s ! j) (Loc s ! i);
             Abs_r3 = vnorm r ^ 3
         in if Abs_r3 < SmallDiam p ^ 3 then
              pairLoop p i js (s\<lparr> isInContact := (isInContact s)[i := 1] \<rparr>) acc
            else
              (case vdiv r (0.001 * Abs_r3) of
                 Inl e \<Rightarrow> Inl e
               | Inr q \<Rightarrow> pairLoop p i js s (vadd acc q)))
      else pairLoop p i js s acc)"

definition findCurrentAcc :: "params \<Rightarrow> nat \<Rightarrow> state \<Rightarrow> error + state" where
  "findCurrentAcc p i s =
     (if N p \<le> i then Inl IndexError
      else
        (let s1 = s\<lparr> isInContact := (isInContact s)[i := 0] \<rparr>;
             s2 = s1\<lparr> hasFallen := (hasFallen s1)[i := 0] \<rparr>;
             R = vsub (HeavyMassLoc p) (Loc s2 ! i);
             Abs_R3 = vnorm R ^ 3
         in if Abs_R3 \<ge> LargeRadius p ^ 3 then
              (case vdiv R (0.001 * Abs_R3) of
                 Inl e \<Rightarrow> Inl e
               | Inr R_Abs_R3 \<Rightarrow>
                   (let s3 = s2\<lparr> AccRad := (AccRad s2)[i := smul 0.001 (smul (GM p) R_Abs_R3)] \<rparr>
                    in case pairLoop p i [0..<N p - 1] s3 vzero of
                         Inl e \<Rightarrow> Inl e
                       | Inr (s4, r_Abs_r3) \<Rightarrow>
                           Inr (s4\<lparr> AccInt := (AccInt s4)[i := smul 0.001 (smul (Gm p) r_Abs_r3)] \<rparr>)))
            else
              Inr (s2\<lparr> hasFallen := (hasFallen s2)[i := 1],
                       AccRad := (AccRad s2)[i := Vec3 0 0 0],
                       AccInt := (AccInt s2)[i := Vec3 0 0 0] \<rparr>)))"

subsection \<open>Velocity and position of one body\<close>

definition findNextVel :: "params \<Rightarrow> nat \<Rightarrow> state \<Rightarrow> error + state" where
  "findNextVel p i s =
     (if N p \<le> i then Inl IndexError
      else
        (let s1 = s\<lparr> VelRad := (VelRad s)[i := vadd (VelRad s ! i) (smul (dt p) (AccRad s ! i))] \<rparr>;
             s2 = s1\<lparr> VelInt := (VelInt s1)[i := vadd (VelInt s1 ! i) (smul (dt p) (AccInt s1 ! i))] \<rparr>
         in if isInContact s2 ! i = 1 then
              Inr (s2\<lparr> VelInt := (VelInt s2)[i := smul (VelDecreaseFactor p) (VelInt s2 ! i)] \<rparr>)
            else Inr s2))"

definition findNextLoc :: "params \<Rightarrow> nat \<Rightarrow> state \<Rightarrow> error + state" where
  "findNextLoc p i s =
     (if N p \<le> i then Inl IndexError
      else
        Inr (s\<lparr> Loc := (Loc s)[i :=
               vadd (Loc s ! i)
                    (vadd (smul (dt p) (vadd (VelRad s ! i) (VelInt s ! i)))
                          (smul ((dt p) ^ 2) (smul 0.5 (vadd (AccRad s ! i) (AccInt s ! i)))))] \<rparr>))"

subsection \<open>The driver\<close>

text \<open>The body of the inner loop of \<^verbatim>\<open>Run\<close> for one \<open>i\<close>.\<close>

definition bodyStep :: "params \<Rightarrow> nat \<Rightarrow> state \<Rightarrow> error + state" where
  "bodyStep p i s =
     (if N p \<le> i then Inl IndexError
      else if hasFallen s ! i = 0 then
        (case findCurrentAcc p i s of
           Inl e \<Rightarrow> Inl e
         | Inr s1 \<Rightarrow>
             (case findNextLoc p i s1 of
                Inl e \<Rightarrow> Inl e
              | Inr s2 \<Rightarrow> findNextVel p i s2))
      else Inr s)"

fun bodyLoop :: "params \<Rightarrow> nat list \<Rightarrow> state \<Rightarrow> error + state" where
  "bodyLoop p [] s = Inr s"
| "bodyLoop p (i # is) s =
     (case bodyStep p i s of Inl e \<Rightarrow> Inl e | Inr s' \<Rightarrow> bodyLoop p is s')"

text \<open>\<^verbatim>\<open>TimeSeries[:,:,t] = Loc[:,:]\<close>; a frame index beyond the buffer raises.\<close>

definition snapshot :: "nat \<Rightarrow> state \<Rightarrow> error + state" where
  "snapshot t s =
     (if t < length (TimeSeries s) then Inr (s\<lparr> TimeSeries := (TimeSeries s)[t := Loc s] \<rparr>)
      else Inl IndexError)"

text \<open>The body of the outer loop of \<^verbatim>\<open>Run\<close> for one \<open>t\<close>; the progress line is not modelled.\<close>

definition frame :: "params \<Rightarrow> nat \<Rightarrow> state \<Rightarrow> error + state" where
  "frame p t s =
     (case bodyLoop p [0..<N p - 1] s of Inl e \<Rightarrow> Inl e | Inr s' \<Rightarrow> snapshot t s')"

fun frameLoop :: "params \<Rightarrow> nat list \<Rightarrow> state \<Rightarrow> error + state" where
  "frameLoop p [] s = Inr s"
| "frameLoop p (t # ts) s =
     (case frame p t s of Inl e \<Rightarrow> Inl e | Inr s' \<Rightarrow> frameLoop p ts s')"

definition Run :: "params \<Rightarrow> int \<Rightarrow> state \<Rightarrow> error + state" where
  "Run p dtCount s = frameLoop p [0..<nat (dtCount - 1)] s"

subsection \<open>Quantities the properties are stated with\<close>

text \<open>Body \<open>i\<close> is not inside the central object: the test of \<^verbatim>\<open>findCurrentAcc\<close>.\<close>

definition outside :: "params \<Rightarrow> state \<Rightarrow> nat \<Rightarrow> bool" where
  "outside p s i = (LargeRadius p ^ 3 \<le> vnorm (vsub (HeavyMassLoc p) (Loc s ! i)) ^ 3)"

text \<open>Another body \<open>j\<close> lies within the collision diameter of body \<open>i\<close>.\<close>

definition touching :: "params \<Rightarrow> state \<Rightarrow> nat \<Rightarrow> nat \<Rightarrow> bool" where
  "touching p s i j = (j \<noteq> i \<and> vnorm (vsub (Loc s ! j) (Loc s ! i)) ^ 3 < SmallDiam p ^ 3)"

text \<open>The vector \<open>r / |r|^3\<close>.\<close>

definition invCube :: "vec3 \<Rightarrow> vec3" where
  "invCube r = smul (1 / vnorm r ^ 3) r"

definition vsum :: "vec3 list \<Rightarrow> vec3" where
  "vsum vs = foldr vadd vs vzero"

text \<open>The sum of \<open>r / |r|^3\<close>, \<open>r\<close> from body \<open>i\<close> to body \<open>j\<close>, over the bodies \<open>j\<close> of a list.\<close>

definition gravSum :: "state \<Rightarrow> nat \<Rightarrow> nat list \<Rightarrow> vec3" where
  "gravSum s i js = vsum (map (\<lambda>j. invCube (vsub (Loc s ! j) (Loc s ! i))) js)"

text \<open>The other bodies that have not fallen, among all \<open>N\<close> bodies.\<close>

definition activeOthers :: "params \<Rightarrow> state \<Rightarrow> nat \<Rightarrow> nat list" where
  "activeOthers p s i = filter (\<lambda>j. j \<noteq> i \<and> hasFallen s ! j = 0) [0..<N p]"

text \<open>The other bodies that the loop over \<open>j\<close> in \<^verbatim>\<open>findCurrentAcc\<close> visits.\<close>

definition scannedOthers :: "params \<Rightarrow> nat \<Rightarrow> nat list" where
  "scannedOthers p i = filter (\<lambda>j. j \<noteq> i) [0..<N p - 1]"

subsection \<open>Closed forms of the state changes\<close>

text \<open>
  What the functions above return when they do not fail, as plain functions on the state;
  the lemmas below prove that they agree with the translated functions.
\<close>

definition farBodies :: "params \<Rightarrow> state \<Rightarrow> nat \<Rightarrow> nat list" where
  "farBodies p s i = filter (\<lambda>j. j \<noteq> i \<and> \<not> touching p s i j) [0..<N p - 1]"

definition afterAcc :: "params \<Rightarrow> nat \<Rightarrow> state \<Rightarrow> state" where
  "afterAcc p i s =
     (if outside p s i then
        s\<lparr> isInContact := (isInContact s)[i := (if \<exists>j \<in> set [0..<N p - 1]. touching p s i j then 1 else 0)],
           hasFallen := (hasFallen s)[i := 0],
           AccRad := (AccRad s)[i := smul (GM p) (invCube (vsub (HeavyMassLoc p) (Loc s ! i)))],
           AccInt := (AccInt s)[i := smul (Gm p) (gravSum s i (farBodies p s i))] \<rparr>
      else
        s\<lparr> isInContact := (isInContact s)[i := 0],
           hasFallen := (hasFallen s)[i := 1],
           AccRad := (AccRad s)[i := vzero],
           AccInt := (AccInt s)[i := vzero] \<rparr>)"

definition afterLoc :: "params \<Rightarrow> nat \<Rightarrow> state \<Rightarrow> state" where
  "afterLoc p i s =
     s\<lparr> Loc := (Loc s)[i :=
          vadd (Loc s ! i)
               (vadd (smul (dt p) (vadd (VelRad s ! i) (VelInt s ! i)))
                     (smul ((dt p) ^ 2) (smul 0.5 (vadd (AccRad s ! i) (AccInt s ! i)))))] \<rparr>"

definition afterVel :: "params \<Rightarrow> nat \<Rightarrow> state \<Rightarrow> state" where
  "afterVel p i s =
     s\<lparr> VelRad := (VelRad s)[i := vadd (VelRad s ! i) (smul (dt p) (AccRad s ! i))],
        VelInt := (VelInt s)[i :=
          (if isInContact s ! i = 1
           then smul (VelDecreaseFactor p) (vadd (VelInt s ! i) (smul (dt p) (AccInt s ! i)))
           else vadd (VelInt s ! i) (smul (dt p) (AccInt s ! i)))] \<rparr>"

definition afterStep :: "params \<Rightarrow> nat \<Rightarrow> state \<Rightarrow> state" where
  "afterStep p i s =
     (if hasFallen s ! i = 0 then afterVel p i (afterLoc p i (afterAcc p i s)) else s)"

definition afterFrame :: "params \<Rightarrow> nat \<Rightarrow> state \<Rightarrow> state" where
  "afterFrame p t s =
     (let s' = fold (afterStep p) [0..<N p - 1] s
      in s'\<lparr> TimeSeries := (TimeSeries s')[t := Loc s'] \<rparr>)"

text \<open>All that the module stores for body \<open>i\<close> is the same in two states.\<close>

definition sameBody :: "nat \<Rightarrow> state \<Rightarrow> state \<Rightarrow> bool" where
  "sameBody i s s' =
     (isInContact s' ! i = isInContact s ! i \<and> hasFallen s' ! i = hasFallen s ! i \<and>
      AccRad s' ! i = AccRad s ! i \<and> AccInt s' ! i = AccInt s ! i \<and>
      Loc s' ! i = Loc s ! i \<and> VelRad s' ! i = VelRad s ! i \<and> VelInt s' ! i = VelInt s ! i)"

text \<open>
  Body \<open>i\<close> lies fallen at position \<open>x\<close> with zero accelerations and the velocities
  \<open>vr\<close> and \<open>vi\<close>.
\<close>

definition restsAt :: "nat \<Rightarrow> vec3 \<Rightarrow> vec3 \<Rightarrow> vec3 \<Rightarrow> state \<Rightarrow> bool" where
  "restsAt i x vr vi s =
     (hasFallen s ! i = 1 \<and> AccRad s ! i = vzero \<and> AccInt s ! i = vzero \<and>
      Loc s ! i = x \<and> VelRad s ! i = vr \<and> VelInt s ! i = vi)"

subsection \<open>The two-phase reference\<close>

text \<open>
  The two-phase reference of the specification, for comparison with \<open>frame\<close>: first the
  accelerations of all the bodies that are active at the start of the frame are computed,
  from the positions at the start of the frame; only then are those bodies integrated.
\<close>

fun forcePass :: "params \<Rightarrow> nat list \<Rightarrow> state \<Rightarrow> error + state" where
  "forcePass p [] s = Inr s"
| "forcePass p (i # is) s =
     (case findCurrentAcc p i s of Inl e \<Rightarrow> Inl e | Inr s' \<Rightarrow> forcePass p is s')"

fun integratePass :: "params \<Rightarrow> nat list \<Rightarrow> state \<Rightarrow> error + state" where
  "integratePass p [] s = Inr s"
| "integratePass p (i # is) s =
     (case findNextLoc p i s of
        Inl e \<Rightarrow> Inl e
      | Inr s1 \<Rightarrow>
          (case findNextVel p i s1 of Inl e \<Rightarrow> Inl e | Inr s2 \<Rightarrow> integratePass p is s2))"

definition twoPhaseFrame :: "params \<Rightarrow> nat \<Rightarrow> state \<Rightarrow> error + state" where
  "twoPhaseFrame p t s =
     (let active = filter (\<lambda>i. hasFallen s ! i = 0) [0..<N p - 1]
      in case forcePass p active s of
           Inl e \<Rightarrow> Inl e
         | Inr s1 \<Rightarrow>
             (case integratePass p active s1 of Inl e \<Rightarrow> Inl e | Inr s2 \<Rightarrow> snapshot t s2))"

text \<open>What \<open>twoPhaseFrame\<close> returns when it does not fail.\<close>

definition afterTwoPhase :: "params \<Rightarrow> nat \<Rightarrow> state \<Rightarrow> state" where
  "afterTwoPhase p t s =
     (let active = filter (\<lambda>i. hasFallen s ! i = 0) [0..<N p - 1];
          s2 = fold (\<lambda>i s'. afterVel p i (afterLoc p i s')) active (fold (afterAcc p) active s)
      in s2\<lparr> TimeSeries := (TimeSeries s2)[t := Loc s2] \<rparr>)"

subsection \<open>Concrete configurations\<close>

text \<open>The constants of the source with three bodies instead of five hundred.\<close>

definition three_params :: params where
  "three_params = src_params\<lparr> N := 3 \<rparr>"

text \<open>Three fresh bodies that share one position, with a buffer of two frames.\<close>

definition stacked_state :: state where
  "stacked_state =
     \<lparr> isInContact = [0, 0, 0], hasFallen = [0, 0, 0],
       AccRad = [vzero, vzero, vzero], AccInt = [vzero, vzero, vzero],
       Loc = [Vec3 1750 1850 1750, Vec3 1750 1850 1750, Vec3 1750 1850 1750],
       VelRad = [Vec3 0 5000 0, Vec3 0 5000 0, vzero],
       VelInt = [vzero, vzero, vzero],
       TimeSeries = [[vzero, vzero, vzero], [vzero, vzero, vzero]] \<rparr>"

text \<open>
  All positions below lie on the line through the central object along the second axis,
  the direction of the initial cloud velocity. The central object is at \<open>1750\<close> on that
  line and has radius \<open>50\<close>; the collision diameter is \<open>12\<close>.

  Body 1 has fallen onto the central object; body 0 is outside it, \<open>15\<close> away from
  body 1 and from body 2.
\<close>

definition settled_far_state :: state where
  "settled_far_state =
     \<lparr> isInContact = [0, 0, 0], hasFallen = [0, 1, 0],
       AccRad = [vzero, vzero, vzero], AccInt = [vzero, vzero, vzero],
       Loc = [Vec3 1750 1805 1750, Vec3 1750 1790 1750, Vec3 1750 1820 1750],
       VelRad = [Vec3 0 5000 0, Vec3 0 5000 0, vzero],
       VelInt = [vzero, vzero, vzero],
       TimeSeries = [[vzero, vzero, vzero], [vzero, vzero, vzero]] \<rparr>"

text \<open>As before, but body 0 is only \<open>10\<close> away from the fallen body 1.\<close>

definition settled_near_state :: state where
  "settled_near_state =
     \<lparr> isInContact = [0, 0, 0], hasFallen = [0, 1, 0],
       AccRad = [vzero, vzero, vzero], AccInt = [vzero, vzero, vzero],
       Loc = [Vec3 1750 1805 1750, Vec3 1750 1795 1750, Vec3 1750 1820 1750],
       VelRad = [Vec3 0 5000 0, Vec3 0 5000 0, vzero],
       VelInt = [vzero, vzero, vzero],
       TimeSeries = [[vzero, vzero, vzero], [vzero, vzero, vzero]] \<rparr>"

text \<open>
  Body 0 is inside the central object but has not been marked yet; body 1 is outside,
  \<open>15\<close> away from body 0.
\<close>

definition falling_state :: state where
  "falling_state =
     \<lparr> isInContact = [0, 0, 0], hasFallen = [0, 0, 0],
       AccRad = [vzero, vzero, vzero], AccInt = [vzero, vzero, vzero],
       Loc = [Vec3 1750 1795 1750, Vec3 1750 1810 1750, Vec3 1750 1820 1750],
       VelRad = [Vec3 0 5000 0, Vec3 0 5000 0, vzero],
       VelInt = [vzero, vzero, vzero],
       TimeSeries = [[vzero, vzero, vzero], [vzero, vzero, vzero]] \<rparr>"

text \<open>
  A configuration that is degenerate in every respect: no body, a zero timestep and a
  collision diameter as large as the generation cube; and the arrays allocated for it.
\<close>

definition degenerate_params :: params where
  "degenerate_params = src_params\<lparr> N := 0, dt := 0, SmallDiam := 500 \<rparr>"

definition empty_state :: state where
  "empty_state =
     \<lparr> isInContact = [], hasFallen = [], AccRad = [], AccInt = [], Loc = [],
       VelRad = [], VelInt = [], TimeSeries = [] \<rparr>"

text \<open>Three bodies with a negative timestep and the same oversized collision diameter.\<close>

definition backward_params :: params where
  "backward_params = three_params\<lparr> dt := - (1 / 1000), SmallDiam := 500 \<rparr>"

subsection \<open>Saving and loading the time series\<close>

text \<open>
  \<^verbatim>\<open>saveNewSim\<close> and \<^verbatim>\<open>loadSavedSim\<close> go through \<^verbatim>\<open>np.savetxt\<close> and
  \<^verbatim>\<open>np.loadtxt\<close> with their default arguments. Both are modelled from NumPy's
  documentation.

  A number as \<^verbatim>\<open>np.savetxt\<close> prints it with its default format \<^verbatim>\<open>'%.18e'\<close>:
  \<open>Sci neg m e\<close> stands for the text \<^verbatim>\<open>[-]d.dddddddddddddddddde[+-]XX\<close> with the sign
  \<open>neg\<close>, the nineteen digits \<open>m\<close> and the decimal exponent \<open>e\<close>.
\<close>

datatype sci = Sci bool nat int

text \<open>
  Modelled from NumPy's documentation: the format \<^verbatim>\<open>'%.18e'\<close> prints one digit before
  the point and eighteen after it, rounded to the nearest. A float64 printed so is read
  back as the same float64; a real number, as here, is read back rounded to nineteen
  significant digits.
\<close>

definition fmt18e :: "real \<Rightarrow> sci" where
  "fmt18e x =
     (if x = 0 then Sci False 0 0
      else
        (let e = \<lfloor>log 10 \<bar>x\<bar>\<rfloor>;
             m = round (\<bar>x\<bar> * 10 powi (18 - e))
         in if m = 10 ^ 19 then Sci (x < 0) (10 ^ 18) (e + 1) else Sci (x < 0) (nat m) e))"

text \<open>The number that is read from such a text.\<close>

fun sciValue :: "sci \<Rightarrow> real" where
  "sciValue (Sci neg m e) = (if neg then - 1 else 1) * (real m * 10 powi (e - 18))"

text \<open>A two-dimensional array \<^verbatim>\<open>TimeSeries[k,:,:]\<close>: a row for each body, a column for each frame.\<close>

type_synonym table = "real list list"

text \<open>
  A text file: its lines, each the numbers that \<^verbatim>\<open>' '\<close> separates. The file system
  maps the names of the files that exist to their contents.
\<close>

type_synonym textfile = "sci list list"

type_synonym files = "string \<Rightarrow> textfile option"

text \<open>
  Modelled from NumPy's documentation: \<^verbatim>\<open>np.savetxt(fname, X)\<close> writes one line for
  each row of \<open>X\<close>.
\<close>

definition savetxt :: "table \<Rightarrow> textfile" where
  "savetxt X = map (map fmt18e) X"

text \<open>An array of zero, one or two dimensions.\<close>

datatype ndarray = Array0 real | Array1 "real list" | Array2 "real list list"

text \<open>
  Modelled from NumPy's documentation: \<^verbatim>\<open>np.loadtxt(fname)\<close> skips blank lines, needs
  the same number of values in every row, and with the default \<^verbatim>\<open>ndmin = 0\<close> squeezes
  the axes of length one: a single row or a single column comes back as a one-dimensional
  array, a single value as a zero-dimensional one. A file without data gives an empty
  one-dimensional array (and a warning).
\<close>

definition loadtxt :: "textfile \<Rightarrow> error + ndarray" where
  "loadtxt f =
     (let rows = filter (\<lambda>r. r \<noteq> []) (map (map sciValue) f)
      in if rows = [] then Inr (Array1 [])
         else if \<exists>r \<in> set rows. length r \<noteq> length (hd rows) then Inl ValueError
         else if length rows = 1 \<and> length (hd rows) = 1 then Inr (Array0 (hd (hd rows)))
         else if length rows = 1 then Inr (Array1 (hd rows))
         else if length (hd rows) = 1 then Inr (Array1 (map hd rows))
         else Inr (Array2 rows))"

text \<open>
  Modelled from NumPy's documentation: the assignment \<^verbatim>\<open>TimeSeries[k,:,:] = A\<close> to a
  slice of \<open>n\<close> rows and \<open>d\<close> columns broadcasts \<open>A\<close>. Aligned from the last axis,
  each axis of \<open>A\<close> must have the length of the slice's axis or the length one, in
  which case it is repeated; otherwise the assignment raises \<^verbatim>\<open>ValueError\<close>.
\<close>

definition stretch :: "nat \<Rightarrow> 'a list \<Rightarrow> 'a list option" where
  "stretch k xs =
     (if length xs = k then Some xs
      else if length xs = 1 then Some (replicate k (hd xs))
      else None)"

fun stretchRows :: "nat \<Rightarrow> real list list \<Rightarrow> real list list option" where
  "stretchRows d [] = Some []"
| "stretchRows d (r # rs) =
     (case stretch d r of
        None \<Rightarrow> None
      | Some r' \<Rightarrow> (case stretchRows d rs of None \<Rightarrow> None | Some rs' \<Rightarrow> Some (r' # rs')))"

definition assignSlice :: "nat \<Rightarrow> nat \<Rightarrow> ndarray \<Rightarrow> error + table" where
  "assignSlice n d A =
     (case A of
        Array0 v \<Rightarrow> Inr (replicate n (replicate d v))
      | Array1 vs \<Rightarrow>
          (case stretch d vs of None \<Rightarrow> Inl ValueError | Some r \<Rightarrow> Inr (replicate n r))
      | Array2 rows \<Rightarrow>
          (case stretchRows d rows of
             None \<Rightarrow> Inl ValueError
           | Some rs \<Rightarrow> (case stretch n rs of None \<Rightarrow> Inl ValueError | Some t \<Rightarrow> Inr t)))"

text \<open>The three coordinates, and the table of one of them for \<open>n\<close> bodies.\<close>

fun vx :: "vec3 \<Rightarrow> real" where "vx (Vec3 x y z) = x"

fun vy :: "vec3 \<Rightarrow> real" where "vy (Vec3 x y z) = y"

fun vz :: "vec3 \<Rightarrow> real" where "vz (Vec3 x y z) = z"

definition axisTable :: "nat \<Rightarrow> (vec3 \<Rightarrow> real) \<Rightarrow> vec3 list list \<Rightarrow> table" where
  "axisTable n c ts = map (\<lambda>i. map (\<lambda>fr. c (fr ! i)) ts) [0..<n]"

text \<open>\<^verbatim>\<open>saveNewSim(name)\<close>: three files, written one after the other.\<close>

definition saveNewSim :: "params \<Rightarrow> string \<Rightarrow> state \<Rightarrow> files \<Rightarrow> files" where
  "saveNewSim p name s fs =
     (let fs1 = fs(name @ ''X.txt'' \<mapsto> savetxt (axisTable (N p) vx (TimeSeries s)));
          fs2 = fs1(name @ ''Y.txt'' \<mapsto> savetxt (axisTable (N p) vy (TimeSeries s)))
      in fs2(name @ ''Z.txt'' \<mapsto> savetxt (axisTable (N p) vz (TimeSeries s))))"

text \<open>
  One line \<^verbatim>\<open>TimeSeries[k,:,:] = np.loadtxt(fname)\<close> of \<^verbatim>\<open>loadSavedSim\<close>; a file
  that does not exist raises.
\<close>

definition loadAxis :: "files \<Rightarrow> string \<Rightarrow> nat \<Rightarrow> nat \<Rightarrow> error + table" where
  "loadAxis fs fname n dtcount =
     (case fs fname of
        None \<Rightarrow> Inl FileNotFoundError
      | Some f \<Rightarrow> (case loadtxt f of Inl e \<Rightarrow> Inl e | Inr A \<Rightarrow> assignSlice n dtcount A))"

text \<open>
  \<^verbatim>\<open>loadSavedSim(name, n, dtcount, ...)\<close> up to the display: the local array of zeros
  of \<open>n\<close> rows and \<open>dtcount\<close> columns for each axis, filled from the three files.
\<close>

definition loadSavedSim :: "files \<Rightarrow> string \<Rightarrow> nat \<Rightarrow> nat \<Rightarrow> error + (table \<times> table \<times> table)" where
  "loadSavedSim fs name n dtcount =
     (case loadAxis fs (name @ ''X.txt'') n dtcount of
        Inl e \<Rightarrow> Inl e
      | Inr X \<Rightarrow>
          (case loadAxis fs (name @ ''Y.txt'') n dtcount of
             Inl e \<Rightarrow> Inl e
           | Inr Y \<Rightarrow>
               (case loadAxis fs (name @ ''Z.txt'') n dtcount of
                  Inl e \<Rightarrow> Inl e
                | Inr Z \<Rightarrow> Inr (X, Y, Z))))"

text \<open>A number after it was printed and read again.\<close>

definition reread :: "real \<Rightarrow> real" where
  "reread x = sciValue (fmt18e x)"

text \<open>
  The table \<open>X\<close> has the shape of coordinate \<open>c\<close> of the time series \<open>ts\<close> and agrees
  with it entry by entry within the precision of the printed format.
\<close>

definition agrees :: "nat \<Rightarrow> (vec3 \<Rightarrow> real) \<Rightarrow> vec3 list list \<Rightarrow> table \<Rightarrow> bool" where
  "agrees n c ts X =
     (length X = n \<and> (\<forall>r \<in> set X. length r = length ts) \<and>
      (\<forall>i < n. \<forall>t < length ts.
         \<bar>X ! i ! t - c (ts ! t ! i)\<bar> \<le> \<bar>c (ts ! t ! i)\<bar> * (5 / 10 ^ 19)))"

text \<open>A state whose time series holds a single frame.\<close>

definition single_frame_state :: state where
  "single_frame_state =
     falling_state\<lparr> TimeSeries := [[Vec3 1750 1800 1750, Vec3 1750 1815 1750, Vec3 1750 1820 1750]] \<rparr>"

section \<open>Properties\<close>

subsection \<open>Vector algebra and the closed forms\<close>

lemma vadd_assoc: "vadd (vadd a b) c = vadd a (vadd b c)"
  by (cases a; cases b; cases c) simp

lemma vadd_vzero [simp]: "vadd vzero a = a" "vadd a vzero = a"
  by (cases a; simp add: vzero_def)+

lemma smul_vadd: "smul k (vadd a b) = vadd (smul k a) (smul k b)"
  by (cases a; cases b) (simp add: algebra_simps)

lemma smul_smul: "smul k (smul l a) = smul (k * l) a"
  by (cases a) simp

lemma smul_one [simp]: "smul 1 a = a"
  by (cases a) simp

lemma smul_vzero [simp]: "smul k vzero = vzero"
  by (simp add: vzero_def)

lemma smul_zero [simp]: "smul 0 a = vzero"
  by (cases a) (simp add: vzero_def)

lemma vsum_Nil [simp]: "vsum [] = vzero"
  by (simp add: vsum_def)

lemma vsum_Cons [simp]: "vsum (v # vs) = vadd v (vsum vs)"
  by (simp add: vsum_def)

lemma gravSum_Nil [simp]: "gravSum s i [] = vzero"
  by (simp add: gravSum_def)

lemma gravSum_Cons [simp]:
  "gravSum s i (j # js) = vadd (invCube (vsub (Loc s ! j) (Loc s ! i))) (gravSum s i js)"
  by (simp add: gravSum_def)

lemma vdiv_invCube:
  "vnorm r ^ 3 \<noteq> 0 \<Longrightarrow> vdiv r (0.001 * vnorm r ^ 3) = Inr (smul 1000 (invCube r))"
  by (cases r) (simp add: invCube_def)

lemma touching_contact_update [simp]:
  "touching p (s\<lparr> isInContact := c \<rparr>) i j = touching p s i j"
  by (simp add: touching_def)

lemma gravSum_contact_update [simp]:
  "gravSum (s\<lparr> isInContact := c \<rparr>) i js = gravSum s i js"
  by (simp add: gravSum_def)

lemma pairLoop_result:
  assumes "0 < SmallDiam p"
  shows "pairLoop p i js s acc =
           Inr (if \<exists>j \<in> set js. touching p s i j
                then s\<lparr> isInContact := (isInContact s)[i := 1] \<rparr> else s,
                vadd acc (smul 1000 (gravSum s i (filter (\<lambda>j. j \<noteq> i \<and> \<not> touching p s i j) js))))"
proof (induction js arbitrary: s acc)
  case Nil
  show ?case by simp
next
  case (Cons j js)
  consider (self) "j = i" | (near) "touching p s i j" | (far) "j \<noteq> i" "\<not> touching p s i j"
    by blast
  then show ?case
  proof cases
    case self
    then show ?thesis by (simp add: Cons.IH touching_def)
  next
    case near
    then have "j \<noteq> i" "vnorm (vsub (Loc s ! j) (Loc s ! i)) ^ 3 < SmallDiam p ^ 3"
      by (simp_all add: touching_def)
    with near show ?thesis by (simp add: Cons.IH)
  next
    case far
    let ?r = "vsub (Loc s ! j) (Loc s ! i)"
    from far have ge: "\<not> vnorm ?r ^ 3 < SmallDiam p ^ 3"
      by (simp add: touching_def)
    from assms have "0 < SmallDiam p ^ 3" by simp
    with ge have "vnorm ?r ^ 3 \<noteq> 0" by linarith
    then have q: "vdiv ?r (0.001 * vnorm ?r ^ 3) = Inr (smul 1000 (invCube ?r))"
      by (rule vdiv_invCube)
    from far ge q show ?thesis
      by (simp add: Cons.IH Let_def vadd_assoc smul_vadd)
  qed
qed

lemma findCurrentAcc_result:
  assumes "i < N p" and "0 < LargeRadius p" and "0 < SmallDiam p"
  shows "findCurrentAcc p i s = Inr (afterAcc p i s)"
proof (cases "outside p s i")
  case True
  let ?R = "vsub (HeavyMassLoc p) (Loc s ! i)"
  from True have ge: "LargeRadius p ^ 3 \<le> vnorm ?R ^ 3"
    by (simp add: outside_def)
  from assms(2) have "0 < LargeRadius p ^ 3" by simp
  with ge have "vnorm ?R ^ 3 \<noteq> 0" by linarith
  then have q: "vdiv ?R (0.001 * vnorm ?R ^ 3) = Inr (smul 1000 (invCube ?R))"
    by (rule vdiv_invCube)
  have k: "smul (1 / 1000) (smul c (smul 1000 v)) = smul c v" for c v
    by (simp add: smul_smul)
  from assms(1) True ge q show ?thesis
    by (auto simp: findCurrentAcc_def afterAcc_def Let_def pairLoop_result [OF assms(3)]
        farBodies_def touching_def gravSum_def k)
next
  case False
  then have "\<not> LargeRadius p ^ 3 \<le> vnorm (vsub (HeavyMassLoc p) (Loc s ! i)) ^ 3"
    by (simp add: outside_def)
  with assms(1) False show ?thesis
    by (simp add: findCurrentAcc_def afterAcc_def Let_def vzero_def)
qed

lemma findNextLoc_result: "i < N p \<Longrightarrow> findNextLoc p i s = Inr (afterLoc p i s)"
  by (simp add: findNextLoc_def afterLoc_def)

lemma findNextVel_result:
  assumes "i < N p" and "i < length (VelInt s)"
  shows "findNextVel p i s = Inr (afterVel p i s)"
  using assms by (simp add: findNextVel_def afterVel_def Let_def)

lemma wf_afterAcc [simp]: "wf p (afterAcc p i s) = wf p s"
  by (simp add: wf_def afterAcc_def)

lemma wf_afterLoc [simp]: "wf p (afterLoc p i s) = wf p s"
  by (simp add: wf_def afterLoc_def)

lemma wf_afterVel [simp]: "wf p (afterVel p i s) = wf p s"
  by (simp add: wf_def afterVel_def)

lemma wf_afterStep [simp]: "wf p (afterStep p i s) = wf p s"
  by (simp add: afterStep_def)

lemma wf_fold_afterStep [simp]: "wf p (fold (afterStep p) js s) = wf p s"
  by (induction js arbitrary: s) simp_all

lemma wf_afterFrame [simp]: "wf p (afterFrame p t s) = wf p s"
proof -
  have "wf p (s'\<lparr> TimeSeries := x \<rparr>) = wf p s'" for s' x
    by (simp add: wf_def)
  then show ?thesis by (simp add: afterFrame_def Let_def)
qed

lemma bodyStep_result:
  assumes "wf p s" and "i < N p" and "0 < LargeRadius p" and "0 < SmallDiam p"
  shows "bodyStep p i s = Inr (afterStep p i s)"
proof (cases "hasFallen s ! i = 0")
  case True
  from assms(1,2) have "i < length (VelInt (afterLoc p i (afterAcc p i s)))"
    by (simp add: wf_def afterLoc_def afterAcc_def)
  with True assms show ?thesis
    by (simp add: bodyStep_def afterStep_def findCurrentAcc_result findNextLoc_result
        findNextVel_result)
next
  case False
  with assms(2) show ?thesis by (simp add: bodyStep_def afterStep_def)
qed

lemma bodyLoop_result:
  assumes "0 < LargeRadius p" and "0 < SmallDiam p"
  shows "wf p s \<Longrightarrow> \<forall>j \<in> set js. j < N p \<Longrightarrow> bodyLoop p js s = Inr (fold (afterStep p) js s)"
proof (induction js arbitrary: s)
  case Nil
  show ?case by simp
next
  case (Cons j js)
  from Cons.prems assms have "bodyStep p j s = Inr (afterStep p j s)"
    by (simp add: bodyStep_result)
  moreover from Cons.prems have "bodyLoop p js (afterStep p j s) = Inr (fold (afterStep p) js (afterStep p j s))"
    by (intro Cons.IH) simp_all
  ultimately show ?case by simp
qed

lemma TimeSeries_afterStep [simp]: "TimeSeries (afterStep p i s) = TimeSeries s"
  by (simp add: afterStep_def afterVel_def afterLoc_def afterAcc_def)

lemma TimeSeries_fold_afterStep [simp]: "TimeSeries (fold (afterStep p) js s) = TimeSeries s"
  by (induction js arbitrary: s) simp_all

lemma length_TimeSeries_afterFrame [simp]:
  "length (TimeSeries (afterFrame p t s)) = length (TimeSeries s)"
  by (simp add: afterFrame_def Let_def)

lemma frame_result:
  assumes "0 < LargeRadius p" and "0 < SmallDiam p" and "wf p s" and "t < length (TimeSeries s)"
  shows "frame p t s = Inr (afterFrame p t s)"
proof -
  have "\<forall>j \<in> set [0..<N p - 1]. j < N p" by auto
  with assms have "bodyLoop p [0..<N p - 1] s = Inr (fold (afterStep p) [0..<N p - 1] s)"
    by (intro bodyLoop_result)
  with assms(4) show ?thesis
    by (simp add: frame_def snapshot_def afterFrame_def Let_def)
qed

lemma frameLoop_result:
  assumes "0 < LargeRadius p" and "0 < SmallDiam p"
  shows "wf p s \<Longrightarrow> \<forall>t \<in> set ts. t < length (TimeSeries s) \<Longrightarrow>
         frameLoop p ts s = Inr (fold (afterFrame p) ts s)"
proof (induction ts arbitrary: s)
  case Nil
  show ?case by simp
next
  case (Cons t ts)
  from Cons.prems assms have "frame p t s = Inr (afterFrame p t s)"
    by (simp add: frame_result)
  moreover from Cons.prems have "frameLoop p ts (afterFrame p t s) = Inr (fold (afterFrame p) ts (afterFrame p t s))"
    by (intro Cons.IH) simp_all
  ultimately show ?case by simp
qed

lemma Run_result:
  assumes "0 < LargeRadius p" and "0 < SmallDiam p" and "wf p s"
    and "nat (dtCount - 1) \<le> length (TimeSeries s)"
  shows "Run p dtCount s = Inr (fold (afterFrame p) [0..<nat (dtCount - 1)] s)"
proof -
  from assms(4) have "\<forall>t \<in> set [0..<nat (dtCount - 1)]. t < length (TimeSeries s)" by auto
  with assms(1-3) show ?thesis
    unfolding Run_def by (intro frameLoop_result)
qed

subsection \<open>Settled bodies\<close>

lemma wf_TimeSeries_update [simp]: "wf p (s\<lparr> TimeSeries := x \<rparr>) = wf p s"
  by (simp add: wf_def)

lemma sameBody_refl [simp]: "sameBody i s s"
  by (simp add: sameBody_def)

lemma sameBody_trans: "sameBody i s s' \<Longrightarrow> sameBody i s' s'' \<Longrightarrow> sameBody i s s''"
  by (simp add: sameBody_def)

lemma sameBody_TimeSeries_update [simp]:
  "sameBody i s (s'\<lparr> TimeSeries := x \<rparr>) = sameBody i s s'"
  by (simp add: sameBody_def)

lemma afterStep_other: "k \<noteq> i \<Longrightarrow> sameBody i s (afterStep p k s)"
  by (simp add: sameBody_def afterStep_def afterVel_def afterLoc_def afterAcc_def)

lemma afterStep_settled: "hasFallen s ! i \<noteq> 0 \<Longrightarrow> afterStep p i s = s"
  by (simp add: afterStep_def)

lemma afterStep_keeps_settled: "hasFallen s ! i = 1 \<Longrightarrow> sameBody i s (afterStep p k s)"
  by (cases "k = i") (simp_all add: afterStep_settled afterStep_other)

lemma fold_afterStep_settled:
  "hasFallen s ! i = 1 \<Longrightarrow> sameBody i s (fold (afterStep p) js s)"
proof (induction js arbitrary: s)
  case Nil
  show ?case by simp
next
  case (Cons j js)
  have one: "sameBody i s (afterStep p j s)"
    using Cons.prems by (rule afterStep_keeps_settled)
  with Cons.prems have "hasFallen (afterStep p j s) ! i = 1"
    by (simp add: sameBody_def)
  then have "sameBody i (afterStep p j s) (fold (afterStep p) js (afterStep p j s))"
    by (rule Cons.IH)
  with one show ?case by (simp add: sameBody_trans)
qed

lemma fold_afterStep_absent:
  "i \<notin> set js \<Longrightarrow> sameBody i s (fold (afterStep p) js s)"
proof (induction js arbitrary: s)
  case Nil
  show ?case by simp
next
  case (Cons j js)
  then have "sameBody i s (afterStep p j s)"
    by (simp add: afterStep_other)
  moreover from Cons have "sameBody i (afterStep p j s) (fold (afterStep p) js (afterStep p j s))"
    by simp
  ultimately show ?case by (simp add: sameBody_trans)
qed

lemma afterFrame_settled: "hasFallen s ! i = 1 \<Longrightarrow> sameBody i s (afterFrame p t s)"
  by (simp add: afterFrame_def Let_def fold_afterStep_settled)

lemma fold_afterFrame_settled:
  "hasFallen s ! i = 1 \<Longrightarrow> sameBody i s (fold (afterFrame p) ts s)"
proof (induction ts arbitrary: s)
  case Nil
  show ?case by simp
next
  case (Cons t ts)
  have one: "sameBody i s (afterFrame p t s)"
    using Cons.prems by (rule afterFrame_settled)
  with Cons.prems have "hasFallen (afterFrame p t s) ! i = 1"
    by (simp add: sameBody_def)
  then have "sameBody i (afterFrame p t s) (fold (afterFrame p) ts (afterFrame p t s))"
    by (rule Cons.IH)
  with one show ?case by (simp add: sameBody_trans)
qed

lemma snapshot_result:
  "t < length (TimeSeries s) \<Longrightarrow> snapshot t s = Inr (s\<lparr> TimeSeries := (TimeSeries s)[t := Loc s] \<rparr>)"
  by (simp add: snapshot_def)

text \<open>
  C5. Once \<^verbatim>\<open>hasFallen[i]\<close> is \<open>1\<close> it stays \<open>1\<close>, and nothing that \<^verbatim>\<open>Run\<close> does
  afterwards touches body \<open>i\<close>: its flags, accelerations, velocities and position are
  the same after the rest of the pass over the bodies (any list \<open>js\<close> of remaining
  indices), after that frame's snapshot, after any later frames \<open>ts\<close>, and after a
  whole \<^verbatim>\<open>Run\<close> started in such a state. The driver calls \<^verbatim>\<open>findCurrentAcc\<close>, which
  would reset the flag, only for bodies whose flag is \<open>0\<close>.
\<close>

theorem settled_body_is_never_touched_again:
  assumes "wf p s" and "0 < LargeRadius p" and "0 < SmallDiam p"
    and "i < N p" and "hasFallen s ! i = 1"
    and "\<forall>j \<in> set js. j < N p"
    and "\<forall>t \<in> set (t # ts). t < length (TimeSeries s)"
    and "nat (dtCount - 1) \<le> length (TimeSeries s)"
  shows "(\<exists>s1 s2 s3. bodyLoop p js s = Inr s1 \<and> snapshot t s1 = Inr s2 \<and>
            frameLoop p ts s2 = Inr s3 \<and>
            sameBody i s s1 \<and> sameBody i s s2 \<and> sameBody i s s3 \<and> hasFallen s3 ! i = 1) \<and>
         (\<exists>s'. Run p dtCount s = Inr s' \<and> sameBody i s s' \<and> hasFallen s' ! i = 1)"
proof
  let ?s1 = "fold (afterStep p) js s"
  let ?s2 = "?s1\<lparr> TimeSeries := (TimeSeries ?s1)[t := Loc ?s1] \<rparr>"
  let ?s3 = "fold (afterFrame p) ts ?s2"
  have b: "bodyLoop p js s = Inr ?s1"
    using assms(1,2,3,6) by (simp add: bodyLoop_result)
  have sn: "snapshot t ?s1 = Inr ?s2"
    using assms(7) by (simp add: snapshot_result)
  have "wf p ?s2" using assms(1) by simp
  moreover have "\<forall>t \<in> set ts. t < length (TimeSeries ?s2)"
    using assms(7) by simp
  ultimately have f: "frameLoop p ts ?s2 = Inr ?s3"
    using assms(2,3) by (simp add: frameLoop_result)
  have k1: "sameBody i s ?s1"
    using assms(5) by (rule fold_afterStep_settled)
  then have k2: "sameBody i s ?s2" by simp
  with assms(5) have "hasFallen ?s2 ! i = 1" by (simp add: sameBody_def)
  then have "sameBody i ?s2 ?s3" by (rule fold_afterFrame_settled)
  with k2 have k3: "sameBody i s ?s3" by (rule sameBody_trans)
  with assms(5) have "hasFallen ?s3 ! i = 1" by (simp add: sameBody_def)
  with b sn f k1 k2 k3
  show "\<exists>s1 s2 s3. bodyLoop p js s = Inr s1 \<and> snapshot t s1 = Inr s2 \<and>
            frameLoop p ts s2 = Inr s3 \<and>
            sameBody i s s1 \<and> sameBody i s s2 \<and> sameBody i s s3 \<and> hasFallen s3 ! i = 1"
    by blast
next
  let ?r = "fold (afterFrame p) [0..<nat (dtCount - 1)] s"
  have "Run p dtCount s = Inr ?r"
    using assms(1,2,3,8) by (simp add: Run_result)
  moreover have k: "sameBody i s ?r"
    using assms(5) by (rule fold_afterFrame_settled)
  moreover from k assms(5) have "hasFallen ?r ! i = 1" by (simp add: sameBody_def)
  ultimately show "\<exists>s'. Run p dtCount s = Inr s' \<and> sameBody i s s' \<and> hasFallen s' ! i = 1"
    by blast
qed

theorem settled_body_is_never_touched_again_witness:
  "wf three_params settled_far_state \<and> 0 < LargeRadius three_params \<and>
   0 < SmallDiam three_params \<and> 1 < N three_params \<and> hasFallen settled_far_state ! 1 = 1 \<and>
   0 < N three_params \<and>
   0 < length (TimeSeries settled_far_state) \<and> 1 < length (TimeSeries settled_far_state) \<and>
   nat (3 - 1) \<le> length (TimeSeries settled_far_state) \<and>
   (\<exists>s1 s2 s3. bodyLoop three_params [1, 0, 1] settled_far_state = Inr s1 \<and>
      snapshot 0 s1 = Inr s2 \<and> frameLoop three_params [1] s2 = Inr s3 \<and>
      sameBody 1 settled_far_state s1 \<and> sameBody 1 settled_far_state s2 \<and>
      sameBody 1 settled_far_state s3 \<and> hasFallen s3 ! 1 = 1) \<and>
   (\<exists>s'. Run three_params 3 settled_far_state = Inr s' \<and>
      sameBody 1 settled_far_state s' \<and> hasFallen s' ! 1 = 1)"
proof -
  have h1: "wf three_params settled_far_state"
    by (simp add: wf_def three_params_def src_params_def settled_far_state_def)
  have h2: "0 < LargeRadius three_params"
    by (simp add: LargeRadius_def three_params_def src_params_def)
  have h3: "0 < SmallDiam three_params"
    by (simp add: three_params_def src_params_def)
  have h4: "1 < N three_params"
    by (simp add: three_params_def)
  have h5: "hasFallen settled_far_state ! 1 = 1"
    by (simp add: settled_far_state_def)
  have h6: "\<forall>j \<in> set [1, 0, 1]. j < N three_params"
    by (simp add: three_params_def)
  have h7: "\<forall>t \<in> set [0, 1]. t < length (TimeSeries settled_far_state)"
    by (simp add: settled_far_state_def)
  have h8: "nat (3 - 1) \<le> length (TimeSeries settled_far_state)"
    by (simp add: settled_far_state_def)
  have g: "0 < N three_params" "0 < length (TimeSeries settled_far_state)"
    "1 < length (TimeSeries settled_far_state)"
    by (simp_all add: three_params_def settled_far_state_def)
  from settled_body_is_never_touched_again [OF h1 h2 h3 h4 h5 h6 h7 h8]
    h1 h2 h3 h4 h5 h8 g
  show ?thesis by blast
qed


subsection \<open>Divisions\<close>

lemma vdiv_ok: "d \<noteq> 0 \<Longrightarrow> \<exists>q. vdiv v d = Inr q"
  by (cases v) simp

lemma vnorm_nonneg: "0 \<le> vnorm v"
  by (cases v) simp

lemma pairLoop_no_zero_division:
  "0 < SmallDiam p \<Longrightarrow> pairLoop p i js s acc \<noteq> Inl DivideByZero"
proof (induction js arbitrary: s acc)
  case Nil
  show ?case by simp
next
  case (Cons j js)
  show ?case
  proof (cases "j \<noteq> i \<and> \<not> vnorm (vsub (Loc s ! j) (Loc s ! i)) ^ 3 < SmallDiam p ^ 3")
    case True
    let ?a = "vnorm (vsub (Loc s ! j) (Loc s ! i)) ^ 3"
    from True Cons.prems have "0 < ?a"
      by (meson not_less order_less_le_trans zero_less_power)
    then have "0.001 * ?a \<noteq> 0" by simp
    then obtain q where "vdiv (vsub (Loc s ! j) (Loc s ! i)) (0.001 * ?a) = Inr q"
      using vdiv_ok by blast
    with True Cons show ?thesis by (simp add: Let_def)
  next
    case False
    with Cons show ?thesis by (auto simp: Let_def)
  qed
qed

text \<open>
  C10. With a positive central radius and a positive collision diameter,
  \<^verbatim>\<open>findCurrentAcc\<close> never divides by zero, for every body index and every state: the
  central term is only evaluated where \<open>|R|^3 \<ge> LargeRadius^3 > 0\<close>, the pairwise term
  only where \<open>|r|^3 \<ge> SmallDiam^3 > 0\<close>.
\<close>

theorem findCurrentAcc_never_divides_by_zero:
  assumes "0 < LargeRadius p" and "0 < SmallDiam p"
  shows "findCurrentAcc p i s \<noteq> Inl DivideByZero"
proof (cases "N p \<le> i")
  case True
  then show ?thesis by (simp add: findCurrentAcc_def)
next
  case False
  let ?A = "vnorm (vsub (HeavyMassLoc p) (Loc s ! i)) ^ 3"
  show ?thesis
  proof (cases "LargeRadius p ^ 3 \<le> ?A")
    case out: True
    from assms(1) have "0 < LargeRadius p ^ 3" by simp
    with out have "0 < ?A" by linarith
    then have "0.001 * ?A \<noteq> 0" by simp
    then obtain q where q: "vdiv (vsub (HeavyMassLoc p) (Loc s ! i)) (0.001 * ?A) = Inr q"
      using vdiv_ok by blast
    show ?thesis
      using False out q pairLoop_no_zero_division [OF assms(2)]
      by (auto simp: findCurrentAcc_def Let_def split: sum.splits prod.splits)
  next
    case inside: False
    with False show ?thesis by (simp add: findCurrentAcc_def Let_def)
  qed
qed

text \<open>The source's constants, and two bodies at the very same position.\<close>

theorem findCurrentAcc_never_divides_by_zero_witness:
  "0 < LargeRadius three_params \<and> 0 < SmallDiam three_params \<and>
   Loc stacked_state ! 0 = Loc stacked_state ! 1 \<and>
   findCurrentAcc three_params 0 stacked_state \<noteq> Inl DivideByZero"
proof -
  have r: "0 < LargeRadius three_params"
    by (simp add: LargeRadius_def three_params_def src_params_def)
  have d: "0 < SmallDiam three_params"
    by (simp add: three_params_def src_params_def)
  have "Loc stacked_state ! 0 = Loc stacked_state ! 1"
    by (simp add: stacked_state_def)
  with r d findCurrentAcc_never_divides_by_zero [OF r d, of 0 stacked_state]
  show ?thesis by simp
qed

subsection \<open>Evaluation on the concrete configurations\<close>

lemma vnorm_axis: "vnorm (Vec3 0 y 0) = \<bar>y\<bar>"
  by simp

lemma three_params_simps:
  "N three_params = 3" "Gm three_params = 5000000" "dt three_params = 1 / 1000"
  "SmallDiam three_params = 12" "VelDecreaseFactor three_params = 95 / 100"
  "GM three_params = 50000000000" "LargeRadius three_params = 50"
  "HeavyMassLoc three_params = Vec3 1750 1750 1750"
  by (simp_all add: three_params_def src_params_def GM_def LargeRadius_def HeavyMassLoc_def
      SpaceLength_def)

lemma upt_3: "[0..<2] = [0, Suc 0]" "[0..<3] = [0, Suc 0, 2]"
  by (simp_all add: upt_rec numeral_2_eq_2 numeral_3_eq_3)

lemma far_outside: "outside three_params settled_far_state 0"
  by (simp add: outside_def three_params_simps settled_far_state_def)

lemma far_touch1: "\<not> touching three_params settled_far_state 0 1"
  by (simp add: touching_def three_params_simps settled_far_state_def)

lemma far_touch2: "\<not> touching three_params settled_far_state 0 2"
  by (simp add: touching_def three_params_simps settled_far_state_def)

lemma far_farBodies: "farBodies three_params settled_far_state 0 = [1]"
  using far_touch1 by (simp add: farBodies_def three_params_simps upt_3)

lemma far_acc: "AccInt (afterAcc three_params 0 settled_far_state) ! 0 = Vec3 0 (- (200000 / 9)) 0"
  using far_outside
  by (simp add: afterAcc_def far_farBodies)
     (simp add: settled_far_state_def three_params_simps invCube_def)

lemma far_claimed:
  "smul (Gm three_params) (gravSum settled_far_state 0 (activeOthers three_params settled_far_state 0))
     = Vec3 0 (200000 / 9) 0"
  by (simp add: activeOthers_def upt_3 three_params_simps)
     (simp add: settled_far_state_def three_params_simps invCube_def)

lemma three_params_positive: "0 < LargeRadius three_params" "0 < SmallDiam three_params"
  by (simp_all add: three_params_simps)

lemma wf_settled_far: "wf three_params settled_far_state"
  by (simp add: wf_def three_params_simps settled_far_state_def)

lemma wf_settled_near: "wf three_params settled_near_state"
  by (simp add: wf_def three_params_simps settled_near_state_def)

subsection \<open>The force pass\<close>

text \<open>
  C1 (as amended). For a body \<open>i\<close> outside the central radius that is not within
  collision range of any other body the pass scans, the internal acceleration that
  \<^verbatim>\<open>findCurrentAcc\<close> stores is \<open>Gm\<close> times the sum of \<open>r / |r|^3\<close> over the other
  bodies the pass scans, fallen ones included: the loop never looks at \<^verbatim>\<open>hasFallen[j]\<close>.
\<close>

theorem internal_acceleration_sums_scanned_bodies:
  assumes "wf p s" and "i < N p" and "0 < LargeRadius p" and "0 < SmallDiam p"
    and "outside p s i" and "\<forall>j \<in> set [0..<N p - 1]. \<not> touching p s i j"
  shows "\<exists>s'. findCurrentAcc p i s = Inr s' \<and>
           AccInt s' ! i = smul (Gm p) (gravSum s i (scannedOthers p i))"
proof -
  have "farBodies p s i = scannedOthers p i"
    unfolding farBodies_def scannedOthers_def using assms(6)
    by (intro filter_cong) auto
  moreover from assms(1,2) have "i < length (AccInt s)" by (simp add: wf_def)
  ultimately have "AccInt (afterAcc p i s) ! i = smul (Gm p) (gravSum s i (scannedOthers p i))"
    using assms(5) by (simp add: afterAcc_def)
  with findCurrentAcc_result [OF assms(2,3,4)] show ?thesis by simp
qed

theorem internal_acceleration_sums_scanned_bodies_witness:
  "wf three_params settled_far_state \<and> 0 < N three_params \<and>
   0 < LargeRadius three_params \<and> 0 < SmallDiam three_params \<and>
   outside three_params settled_far_state 0 \<and>
   [0..<N three_params - 1] = [0, 1] \<and>
   \<not> touching three_params settled_far_state 0 0 \<and>
   \<not> touching three_params settled_far_state 0 1 \<and>
   (\<exists>s'. findCurrentAcc three_params 0 settled_far_state = Inr s' \<and>
      AccInt s' ! 0 =
        smul (Gm three_params) (gravSum settled_far_state 0 (scannedOthers three_params 0)))"
proof -
  have n: "0 < N three_params" by (simp add: three_params_simps)
  have u: "[0..<N three_params - 1] = [0, 1]"
    by (simp add: three_params_simps upt_3)
  have t0: "\<not> touching three_params settled_far_state 0 0"
    by (simp add: touching_def)
  have t: "\<forall>j \<in> set [0..<N three_params - 1]. \<not> touching three_params settled_far_state 0 j"
    unfolding u using far_touch1 t0 by simp
  from internal_acceleration_sums_scanned_bodies
         [OF wf_settled_far n three_params_positive far_outside t]
       wf_settled_far n three_params_positive far_outside u t0 far_touch1
  show ?thesis by blast
qed

text \<open>
  C1 as stated fails: body 0 is outside the central radius and out of collision range of
  bodies 1 and 2, body 1 has fallen, and the acceleration stored for body 0 is the pull
  of body 1, not the sum over the bodies that have not fallen.
\<close>

theorem settled_body_still_attracts_counterexample:
  "outside three_params settled_far_state 0 \<and>
   \<not> touching three_params settled_far_state 0 1 \<and>
   \<not> touching three_params settled_far_state 0 2 \<and>
   hasFallen settled_far_state ! 1 = 1 \<and>
   findCurrentAcc three_params 0 settled_far_state = Inr (afterAcc three_params 0 settled_far_state) \<and>
   AccInt (afterAcc three_params 0 settled_far_state) ! 0 = Vec3 0 (- (200000 / 9)) 0 \<and>
   smul (Gm three_params)
     (gravSum settled_far_state 0 (activeOthers three_params settled_far_state 0))
     = Vec3 0 (200000 / 9) 0"
proof -
  have "findCurrentAcc three_params 0 settled_far_state = Inr (afterAcc three_params 0 settled_far_state)"
    by (rule findCurrentAcc_result) (simp_all add: three_params_simps)
  moreover have "hasFallen settled_far_state ! 1 = 1"
    by (simp add: settled_far_state_def)
  ultimately show ?thesis
    using far_outside far_touch1 far_touch2 far_acc far_claimed by simp
qed

text \<open>
  C7 (as amended). After \<^verbatim>\<open>findCurrentAcc\<close> for body \<open>i\<close>, \<^verbatim>\<open>isInContact[i]\<close> is \<open>1\<close>
  exactly when body \<open>i\<close> is outside the central radius and some other scanned body,
  fallen or not, lies within the collision diameter; otherwise it is \<open>0\<close>, whatever it
  was before. The bodies within the collision diameter are left out of the sum that gives
  the internal acceleration.
\<close>

theorem contact_flag_after_force_pass:
  assumes "wf p s" and "i < N p" and "0 < LargeRadius p" and "0 < SmallDiam p"
  shows "\<exists>s'. findCurrentAcc p i s = Inr s' \<and>
           (isInContact s' ! i = 1 \<longleftrightarrow>
              outside p s i \<and> (\<exists>j \<in> set [0..<N p - 1]. touching p s i j)) \<and>
           (isInContact s' ! i \<noteq> 1 \<longrightarrow> isInContact s' ! i = 0) \<and>
           (outside p s i \<longrightarrow>
              AccInt s' ! i = smul (Gm p) (gravSum s i (farBodies p s i)))"
proof -
  from assms(1,2) have "i < length (AccInt s)" "i < length (isInContact s)"
    by (simp_all add: wf_def)
  then have
    "(isInContact (afterAcc p i s) ! i = 1 \<longleftrightarrow>
        outside p s i \<and> (\<exists>j \<in> set [0..<N p - 1]. touching p s i j))"
    "isInContact (afterAcc p i s) ! i \<noteq> 1 \<longrightarrow> isInContact (afterAcc p i s) ! i = 0"
    "outside p s i \<longrightarrow> AccInt (afterAcc p i s) ! i = smul (Gm p) (gravSum s i (farBodies p s i))"
    by (simp_all add: afterAcc_def)
  with findCurrentAcc_result [OF assms(2,3,4)] show ?thesis by simp
qed

lemma near_outside: "outside three_params settled_near_state 0"
  by (simp add: outside_def three_params_simps settled_near_state_def)

lemma near_touch1: "touching three_params settled_near_state 0 1"
  by (simp add: touching_def three_params_simps settled_near_state_def)

lemma near_touch2: "\<not> touching three_params settled_near_state 0 2"
  by (simp add: touching_def three_params_simps settled_near_state_def)

theorem contact_flag_after_force_pass_witness:
  "wf three_params settled_near_state \<and> 0 < N three_params \<and>
   0 < LargeRadius three_params \<and> 0 < SmallDiam three_params \<and>
   (\<exists>s'. findCurrentAcc three_params 0 settled_near_state = Inr s' \<and>
      (isInContact s' ! 0 = 1 \<longleftrightarrow>
         outside three_params settled_near_state 0 \<and>
         (\<exists>j \<in> set [0..<N three_params - 1]. touching three_params settled_near_state 0 j)) \<and>
      (isInContact s' ! 0 \<noteq> 1 \<longrightarrow> isInContact s' ! 0 = 0) \<and>
      (outside three_params settled_near_state 0 \<longrightarrow>
         AccInt s' ! 0 =
           smul (Gm three_params)
             (gravSum settled_near_state 0 (farBodies three_params settled_near_state 0))))"
proof -
  have n: "0 < N three_params" by (simp add: three_params_simps)
  from contact_flag_after_force_pass [OF wf_settled_near n three_params_positive]
       wf_settled_near n three_params_positive
  show ?thesis by blast
qed

text \<open>
  C7 as stated fails: the only body within the collision diameter of body 0 is body 1,
  which has fallen; the only body that has not fallen, body 2, is out of range; and the
  flag of body 0 is set.
\<close>

theorem contact_with_settled_body_counterexample:
  "findCurrentAcc three_params 0 settled_near_state = Inr (afterAcc three_params 0 settled_near_state) \<and>
   isInContact (afterAcc three_params 0 settled_near_state) ! 0 = 1 \<and>
   activeOthers three_params settled_near_state 0 = [2] \<and>
   \<not> touching three_params settled_near_state 0 2"
proof -
  have "findCurrentAcc three_params 0 settled_near_state = Inr (afterAcc three_params 0 settled_near_state)"
    by (rule findCurrentAcc_result) (simp_all add: three_params_simps)
  moreover have "\<exists>j \<in> set [0..<N three_params - 1]. touching three_params settled_near_state 0 j"
    using near_touch1 by (simp add: three_params_simps upt_3)
  then have "isInContact (afterAcc three_params 0 settled_near_state) ! 0 = 1"
    using near_outside by (simp add: afterAcc_def) (simp add: settled_near_state_def)
  moreover have "activeOthers three_params settled_near_state 0 = [2]"
    by (simp add: activeOthers_def three_params_simps upt_3 settled_near_state_def)
  ultimately show ?thesis using near_touch2 by simp
qed

subsection \<open>One step of one body\<close>

lemma afterAcc_fields [simp]:
  "Loc (afterAcc p i s) = Loc s" "VelRad (afterAcc p i s) = VelRad s"
  "VelInt (afterAcc p i s) = VelInt s" "TimeSeries (afterAcc p i s) = TimeSeries s"
  by (simp_all add: afterAcc_def)

lemma afterLoc_fields [simp]:
  "isInContact (afterLoc p i s) = isInContact s" "hasFallen (afterLoc p i s) = hasFallen s"
  "AccRad (afterLoc p i s) = AccRad s" "AccInt (afterLoc p i s) = AccInt s"
  "VelRad (afterLoc p i s) = VelRad s" "VelInt (afterLoc p i s) = VelInt s"
  "TimeSeries (afterLoc p i s) = TimeSeries s"
  by (simp_all add: afterLoc_def)

lemma afterVel_fields [simp]:
  "isInContact (afterVel p i s) = isInContact s" "hasFallen (afterVel p i s) = hasFallen s"
  "AccRad (afterVel p i s) = AccRad s" "AccInt (afterVel p i s) = AccInt s"
  "Loc (afterVel p i s) = Loc s" "TimeSeries (afterVel p i s) = TimeSeries s"
  by (simp_all add: afterVel_def)

lemma afterStep_active:
  assumes "wf p s" and "i < N p" and "hasFallen s ! i = 0"
  shows "isInContact (afterStep p i s) ! i = isInContact (afterAcc p i s) ! i"
    and "hasFallen (afterStep p i s) ! i = hasFallen (afterAcc p i s) ! i"
    and "AccRad (afterStep p i s) ! i = AccRad (afterAcc p i s) ! i"
    and "AccInt (afterStep p i s) ! i = AccInt (afterAcc p i s) ! i"
    and "Loc (afterStep p i s) ! i =
           vadd (Loc s ! i)
             (vadd (smul (dt p) (vadd (VelRad s ! i) (VelInt s ! i)))
                   (smul ((dt p) ^ 2)
                      (smul 0.5 (vadd (AccRad (afterAcc p i s) ! i) (AccInt (afterAcc p i s) ! i)))))"
    and "VelRad (afterStep p i s) ! i =
           vadd (VelRad s ! i) (smul (dt p) (AccRad (afterAcc p i s) ! i))"
    and "VelInt (afterStep p i s) ! i =
           (if isInContact (afterAcc p i s) ! i = 1
            then smul (VelDecreaseFactor p)
                   (vadd (VelInt s ! i) (smul (dt p) (AccInt (afterAcc p i s) ! i)))
            else vadd (VelInt s ! i) (smul (dt p) (AccInt (afterAcc p i s) ! i)))"
proof -
  from assms(1,2) have len: "i < length (Loc s)" "i < length (VelRad s)" "i < length (VelInt s)"
    by (simp_all add: wf_def)
  from assms(3) have st: "afterStep p i s = afterVel p i (afterLoc p i (afterAcc p i s))"
    by (simp add: afterStep_def)
  show "isInContact (afterStep p i s) ! i = isInContact (afterAcc p i s) ! i"
    and "hasFallen (afterStep p i s) ! i = hasFallen (afterAcc p i s) ! i"
    and "AccRad (afterStep p i s) ! i = AccRad (afterAcc p i s) ! i"
    and "AccInt (afterStep p i s) ! i = AccInt (afterAcc p i s) ! i"
    by (simp_all add: st)
  show "Loc (afterStep p i s) ! i =
           vadd (Loc s ! i)
             (vadd (smul (dt p) (vadd (VelRad s ! i) (VelInt s ! i)))
                   (smul ((dt p) ^ 2)
                      (smul 0.5 (vadd (AccRad (afterAcc p i s) ! i) (AccInt (afterAcc p i s) ! i)))))"
    using len by (simp add: st) (simp add: afterLoc_def)
  show "VelRad (afterStep p i s) ! i =
           vadd (VelRad s ! i) (smul (dt p) (AccRad (afterAcc p i s) ! i))"
    using len by (simp add: st afterVel_def)
  show "VelInt (afterStep p i s) ! i =
           (if isInContact (afterAcc p i s) ! i = 1
            then smul (VelDecreaseFactor p)
                   (vadd (VelInt s ! i) (smul (dt p) (AccInt (afterAcc p i s) ! i)))
            else vadd (VelInt s ! i) (smul (dt p) (AccInt (afterAcc p i s) ! i)))"
    using len by (simp add: st afterVel_def)
qed

text \<open>
  C3 (as amended). For an active body, one pass of the inner loop of \<^verbatim>\<open>Run\<close> calls
  \<^verbatim>\<open>findCurrentAcc\<close>, then \<^verbatim>\<open>findNextLoc\<close>, then \<^verbatim>\<open>findNextVel\<close>: the position
  is advanced first, with the velocities as they were before the step and the
  accelerations just computed, and the velocities are updated afterwards (the internal
  one damped when in contact).
\<close>

theorem position_moves_with_the_old_velocity:
  assumes "wf p s" and "i < N p" and "0 < LargeRadius p" and "0 < SmallDiam p"
    and "hasFallen s ! i = 0"
  shows "\<exists>sa s'. findCurrentAcc p i s = Inr sa \<and> bodyStep p i s = Inr s' \<and>
           AccRad s' ! i = AccRad sa ! i \<and> AccInt s' ! i = AccInt sa ! i \<and>
           isInContact s' ! i = isInContact sa ! i \<and>
           Loc s' ! i =
             vadd (Loc s ! i)
               (vadd (smul (dt p) (vadd (VelRad s ! i) (VelInt s ! i)))
                     (smul ((dt p) ^ 2) (smul 0.5 (vadd (AccRad sa ! i) (AccInt sa ! i))))) \<and>
           VelRad s' ! i = vadd (VelRad s ! i) (smul (dt p) (AccRad sa ! i)) \<and>
           VelInt s' ! i =
             (if isInContact sa ! i = 1
              then smul (VelDecreaseFactor p) (vadd (VelInt s ! i) (smul (dt p) (AccInt sa ! i)))
              else vadd (VelInt s ! i) (smul (dt p) (AccInt sa ! i)))"
  using findCurrentAcc_result [OF assms(2,3,4), of s] bodyStep_result [OF assms(1,2,3,4)]
    afterStep_active [OF assms(1,2,5)]
  by simp

lemma wf_stacked: "wf three_params stacked_state"
  by (simp add: wf_def three_params_simps stacked_state_def)

theorem position_moves_with_the_old_velocity_witness:
  "wf three_params stacked_state \<and> 0 < N three_params \<and> 0 < LargeRadius three_params \<and>
   0 < SmallDiam three_params \<and> hasFallen stacked_state ! 0 = 0 \<and>
   (\<exists>sa s'. findCurrentAcc three_params 0 stacked_state = Inr sa \<and>
      bodyStep three_params 0 stacked_state = Inr s' \<and>
      AccRad s' ! 0 = AccRad sa ! 0 \<and> AccInt s' ! 0 = AccInt sa ! 0 \<and>
      isInContact s' ! 0 = isInContact sa ! 0 \<and>
      Loc s' ! 0 =
        vadd (Loc stacked_state ! 0)
          (vadd (smul (dt three_params) (vadd (VelRad stacked_state ! 0) (VelInt stacked_state ! 0)))
                (smul ((dt three_params) ^ 2) (smul 0.5 (vadd (AccRad sa ! 0) (AccInt sa ! 0))))) \<and>
      VelRad s' ! 0 = vadd (VelRad stacked_state ! 0) (smul (dt three_params) (AccRad sa ! 0)) \<and>
      VelInt s' ! 0 =
        (if isInContact sa ! 0 = 1
         then smul (VelDecreaseFactor three_params)
                (vadd (VelInt stacked_state ! 0) (smul (dt three_params) (AccInt sa ! 0)))
         else vadd (VelInt stacked_state ! 0) (smul (dt three_params) (AccInt sa ! 0))))"
proof -
  have n: "0 < N three_params" by (simp add: three_params_simps)
  have h: "hasFallen stacked_state ! 0 = 0" by (simp add: stacked_state_def)
  from position_moves_with_the_old_velocity [OF wf_stacked n three_params_positive h]
    wf_stacked n three_params_positive h
  show ?thesis by blast
qed

lemma stacked_outside: "outside three_params stacked_state 0"
  by (simp add: outside_def three_params_simps stacked_state_def)

lemma stacked_touch: "touching three_params stacked_state 0 1"
  by (simp add: touching_def three_params_simps stacked_state_def)

lemma stacked_farBodies: "farBodies three_params stacked_state 0 = []"
  using stacked_touch by (simp add: farBodies_def three_params_simps upt_3)

lemma stacked_acc:
  "AccRad (afterAcc three_params 0 stacked_state) ! 0 = Vec3 0 (- 5000000) 0"
  "AccInt (afterAcc three_params 0 stacked_state) ! 0 = vzero"
  using stacked_outside
  by (simp_all add: afterAcc_def stacked_farBodies)
     (simp_all add: stacked_state_def three_params_simps invCube_def)

lemma stacked_contact: "isInContact (afterAcc three_params 0 stacked_state) ! 0 = 1"
proof -
  have "\<exists>j \<in> set [0..<N three_params - 1]. touching three_params stacked_state 0 j"
    using stacked_touch by (simp add: three_params_simps upt_3)
  then show ?thesis
    using stacked_outside by (simp add: afterAcc_def) (simp add: stacked_state_def)
qed

text \<open>
  C3 as stated fails: the position that one step gives body 0 is not the one obtained
  from the velocities as they are after the step.
\<close>

theorem position_does_not_use_the_new_velocity_counterexample:
  "bodyStep three_params 0 stacked_state = Inr (afterStep three_params 0 stacked_state) \<and>
   VelRad (afterStep three_params 0 stacked_state) ! 0 = Vec3 0 0 0 \<and>
   VelInt (afterStep three_params 0 stacked_state) ! 0 = Vec3 0 0 0 \<and>
   Loc (afterStep three_params 0 stacked_state) ! 0 = Vec3 1750 (3705 / 2) 1750 \<and>
   vadd (Loc stacked_state ! 0)
     (vadd (smul (dt three_params)
              (vadd (VelRad (afterStep three_params 0 stacked_state) ! 0)
                    (VelInt (afterStep three_params 0 stacked_state) ! 0)))
           (smul ((dt three_params) ^ 2)
              (smul 0.5 (vadd (AccRad (afterStep three_params 0 stacked_state) ! 0)
                              (AccInt (afterStep three_params 0 stacked_state) ! 0)))))
     = Vec3 1750 (3695 / 2) 1750"
proof -
  have n: "0 < N three_params" by (simp add: three_params_simps)
  have h: "hasFallen stacked_state ! 0 = 0" by (simp add: stacked_state_def)
  note a = afterStep_active [OF wf_stacked n h]
  have b: "bodyStep three_params 0 stacked_state = Inr (afterStep three_params 0 stacked_state)"
    using wf_stacked n three_params_positive by (rule bodyStep_result)
  have v: "VelRad stacked_state ! 0 = Vec3 0 5000 0" "VelInt stacked_state ! 0 = vzero"
    "Loc stacked_state ! 0 = Vec3 1750 1850 1750"
    by (simp_all add: stacked_state_def)
  show ?thesis
    by (simp add: b a stacked_acc stacked_contact v)
       (simp add: three_params_simps vzero_def power2_eq_square)
qed

subsection \<open>Falling onto the central object\<close>

lemma sameBody_outside: "sameBody i s s' \<Longrightarrow> outside p s' i = outside p s i"
  by (simp add: sameBody_def outside_def)

lemma sameBody_restsAt: "sameBody i s s' \<Longrightarrow> restsAt i x vr vi s \<Longrightarrow> restsAt i x vr vi s'"
  by (simp add: sameBody_def restsAt_def)

lemma restsAt_TimeSeries_update [simp]:
  "restsAt i x vr vi (s\<lparr> TimeSeries := c \<rparr>) = restsAt i x vr vi s"
  by (simp add: restsAt_def)

lemma afterStep_inside:
  assumes "wf p s" and "i < N p" and "hasFallen s ! i = 0" and "\<not> outside p s i"
  shows "restsAt i (vadd (Loc s ! i) (smul (dt p) (vadd (VelRad s ! i) (VelInt s ! i))))
           (VelRad s ! i) (VelInt s ! i) (afterStep p i s)"
    and "isInContact (afterStep p i s) ! i = 0"
proof -
  from assms(1,2) have len: "i < length (isInContact s)" "i < length (hasFallen s)"
    "i < length (AccRad s)" "i < length (AccInt s)"
    by (simp_all add: wf_def)
  with assms(4) have acc: "isInContact (afterAcc p i s) ! i = 0" "hasFallen (afterAcc p i s) ! i = 1"
    "AccRad (afterAcc p i s) ! i = vzero" "AccInt (afterAcc p i s) ! i = vzero"
    by (simp_all add: afterAcc_def)
  note a = afterStep_active [OF assms(1,2,3)]
  show "restsAt i (vadd (Loc s ! i) (smul (dt p) (vadd (VelRad s ! i) (VelInt s ! i))))
           (VelRad s ! i) (VelInt s ! i) (afterStep p i s)"
    by (simp add: restsAt_def a acc)
  show "isInContact (afterStep p i s) ! i = 0"
    by (simp add: a acc)
qed

lemma upt_split:
  assumes "i < m"
  shows "[0..<m] = [0..<i] @ i # [Suc i..<m]"
proof -
  have "[0..<i + (m - i)] = [0..<i] @ [i..<i + (m - i)]"
    by (rule upt_add_eq_append) simp
  with assms have "[0..<m] = [0..<i] @ [i..<m]" by simp
  with assms show ?thesis by (simp add: upt_conv_Cons)
qed

lemma pass_settles:
  assumes "wf p s" and "i < N p - 1" and "hasFallen s ! i = 0" and "\<not> outside p s i"
  shows "restsAt i (vadd (Loc s ! i) (smul (dt p) (vadd (VelRad s ! i) (VelInt s ! i))))
           (VelRad s ! i) (VelInt s ! i) (fold (afterStep p) [0..<N p - 1] s)"
proof -
  let ?a = "fold (afterStep p) [0..<i] s"
  let ?b = "afterStep p i ?a"
  let ?c = "fold (afterStep p) [Suc i..<N p - 1] ?b"
  from assms(2) have i: "i < N p" by simp
  have whole: "fold (afterStep p) [0..<N p - 1] s = ?c"
    by (subst upt_split [OF assms(2)]) simp
  have sa: "sameBody i s ?a"
    by (rule fold_afterStep_absent) simp
  then have eq: "Loc ?a ! i = Loc s ! i" "VelRad ?a ! i = VelRad s ! i"
    "VelInt ?a ! i = VelInt s ! i" "hasFallen ?a ! i = hasFallen s ! i"
    by (simp_all add: sameBody_def)
  have "wf p ?a" using assms(1) by simp
  moreover from eq assms(3) have "hasFallen ?a ! i = 0" by simp
  moreover from sa assms(4) have "\<not> outside p ?a i" by (simp add: sameBody_outside)
  ultimately have
    "restsAt i (vadd (Loc ?a ! i) (smul (dt p) (vadd (VelRad ?a ! i) (VelInt ?a ! i))))
       (VelRad ?a ! i) (VelInt ?a ! i) ?b"
    using i by (intro afterStep_inside)
  then have b: "restsAt i (vadd (Loc s ! i) (smul (dt p) (vadd (VelRad s ! i) (VelInt s ! i))))
       (VelRad s ! i) (VelInt s ! i) ?b"
    by (simp add: eq)
  have "sameBody i ?b ?c"
    by (rule fold_afterStep_absent) simp
  with b show ?thesis
    unfolding whole by (rule sameBody_restsAt [rotated])
qed

lemma later_frames_keep:
  assumes "i < N p"
  shows "wf p s \<Longrightarrow> restsAt i x vr vi s \<Longrightarrow>
         restsAt i x vr vi (fold (afterFrame p) ts s) \<and>
         (\<forall>t < length (TimeSeries s). t \<in> set ts \<or> TimeSeries s ! t ! i = x \<longrightarrow>
            TimeSeries (fold (afterFrame p) ts s) ! t ! i = x)"
proof (induction ts arbitrary: s)
  case Nil
  then show ?case by simp
next
  case (Cons u ts)
  let ?m = "fold (afterStep p) [0..<N p - 1] s"
  let ?s1 = "afterFrame p u s"
  from Cons.prems(2) have f: "hasFallen s ! i = 1" by (simp add: restsAt_def)
  then have "sameBody i s ?m" by (rule fold_afterStep_settled)
  from this Cons.prems(2) have m: "restsAt i x vr vi ?m" by (rule sameBody_restsAt)
  have s1: "?s1 = ?m\<lparr> TimeSeries := (TimeSeries s)[u := Loc ?m] \<rparr>"
    by (simp add: afterFrame_def Let_def)
  from m have r1: "restsAt i x vr vi ?s1" by (simp add: s1)
  have w1: "wf p ?s1" using Cons.prems(1) by simp
  from Cons.IH [OF w1 r1]
  have keep: "restsAt i x vr vi (fold (afterFrame p) ts ?s1)"
    and cols: "\<And>t. t < length (TimeSeries s) \<Longrightarrow>
                 t \<in> set ts \<or> TimeSeries ?s1 ! t ! i = x \<Longrightarrow>
                 TimeSeries (fold (afterFrame p) ts ?s1) ! t ! i = x"
    by auto
  have "TimeSeries (fold (afterFrame p) (u # ts) s) ! t ! i = x"
    if t: "t < length (TimeSeries s)" and c: "t \<in> set (u # ts) \<or> TimeSeries s ! t ! i = x" for t
  proof -
    have "t \<in> set ts \<or> TimeSeries ?s1 ! t ! i = x"
    proof (cases "t = u")
      case True
      with t have "TimeSeries ?s1 ! t = Loc ?m" by (simp add: s1)
      with m show ?thesis by (simp add: restsAt_def)
    next
      case False
      then have "TimeSeries ?s1 ! t = TimeSeries s ! t" by (simp add: s1)
      with c False show ?thesis by auto
    qed
    with t show ?thesis by (simp add: cols)
  qed
  with keep show ?case by simp
qed

lemma frames_settle:
  assumes "wf p s" and "i < N p - 1" and "hasFallen s ! i = 0" and "\<not> outside p s i"
    and "0 < n" and "n \<le> length (TimeSeries s)"
  shows "restsAt i (vadd (Loc s ! i) (smul (dt p) (vadd (VelRad s ! i) (VelInt s ! i))))
           (VelRad s ! i) (VelInt s ! i) (fold (afterFrame p) [0..<n] s)"
    and "\<forall>t < n. TimeSeries (fold (afterFrame p) [0..<n] s) ! t ! i =
           vadd (Loc s ! i) (smul (dt p) (vadd (VelRad s ! i) (VelInt s ! i)))"
proof -
  let ?x = "vadd (Loc s ! i) (smul (dt p) (vadd (VelRad s ! i) (VelInt s ! i)))"
  let ?s0 = "afterFrame p 0 s"
  let ?r = "fold (afterFrame p) [0..<n] s"
  let ?m = "fold (afterStep p) [0..<N p - 1] s"
  from assms(2) have i: "i < N p" by simp
  have r: "?r = fold (afterFrame p) [Suc 0..<n] ?s0"
    using assms(5) by (simp add: upt_conv_Cons)
  have m: "restsAt i ?x (VelRad s ! i) (VelInt s ! i) ?m"
    using assms(1,2,3,4) by (rule pass_settles)
  have s0: "?s0 = ?m\<lparr> TimeSeries := (TimeSeries s)[0 := Loc ?m] \<rparr>"
    by (simp add: afterFrame_def Let_def)
  have r0: "restsAt i ?x (VelRad s ! i) (VelInt s ! i) ?s0"
    using m by (simp add: s0)
  from assms(5,6) have "0 < length (TimeSeries s)" by linarith
  then have c0: "TimeSeries ?s0 ! 0 ! i = ?x"
    using m by (simp add: s0 restsAt_def)
  have w0: "wf p ?s0" using assms(1) by simp
  from later_frames_keep [OF i w0 r0, of "[Suc 0..<n]"]
  have keep: "restsAt i ?x (VelRad s ! i) (VelInt s ! i) ?r"
    and cols: "\<And>t. t < length (TimeSeries s) \<Longrightarrow>
                 t \<in> set [Suc 0..<n] \<or> TimeSeries ?s0 ! t ! i = ?x \<Longrightarrow>
                 TimeSeries ?r ! t ! i = ?x"
    unfolding r by auto
  show "restsAt i ?x (VelRad s ! i) (VelInt s ! i) ?r" by (rule keep)
  show "\<forall>t < n. TimeSeries ?r ! t ! i = ?x"
  proof (intro allI impI)
    fix t assume t: "t < n"
    with assms(6) have tl: "t < length (TimeSeries s)" by simp
    show "TimeSeries ?r ! t ! i = ?x"
    proof (cases t)
      case 0
      with c0 tl show ?thesis by (simp add: cols)
    next
      case (Suc k)
      with t have "t \<in> set [Suc 0..<n]" by simp
      with tl show ?thesis by (simp add: cols)
    qed
  qed
qed

text \<open>
  C4 (as amended). A body that the driver processes and that is inside the central
  radius when its turn comes is marked as fallen, with both accelerations zero and the
  scan of the other bodies skipped; the position and velocity updates of that same step
  still run, so the position advances once by \<open>(VelRad + VelInt) * dt\<close> and the
  velocities keep their values. In every later frame the body is at rest there: the
  accelerations stay zero, the velocities and the position no longer change, and every
  frame that \<^verbatim>\<open>Run\<close> records shows that position.
\<close>

theorem body_inside_central_radius_settles:
  assumes "wf p s" and "0 < LargeRadius p" and "0 < SmallDiam p"
    and "i < N p - 1" and "hasFallen s ! i = 0" and "\<not> outside p s i"
    and "2 \<le> dtCount" and "nat (dtCount - 1) \<le> length (TimeSeries s)"
  shows "\<exists>s1 s'. bodyStep p i s = Inr s1 \<and>
           restsAt i (vadd (Loc s ! i) (smul (dt p) (vadd (VelRad s ! i) (VelInt s ! i))))
             (VelRad s ! i) (VelInt s ! i) s1 \<and>
           isInContact s1 ! i = 0 \<and>
           Run p dtCount s = Inr s' \<and>
           restsAt i (vadd (Loc s ! i) (smul (dt p) (vadd (VelRad s ! i) (VelInt s ! i))))
             (VelRad s ! i) (VelInt s ! i) s' \<and>
           (\<forall>t < nat (dtCount - 1).
              TimeSeries s' ! t ! i =
                vadd (Loc s ! i) (smul (dt p) (vadd (VelRad s ! i) (VelInt s ! i))))"
proof -
  from assms(4) have i: "i < N p" by simp
  from assms(7) have n: "0 < nat (dtCount - 1)" by simp
  have step: "bodyStep p i s = Inr (afterStep p i s)"
    using assms(1) i assms(2,3) by (rule bodyStep_result)
  note one = afterStep_inside [OF assms(1) i assms(5,6)]
  have run: "Run p dtCount s = Inr (fold (afterFrame p) [0..<nat (dtCount - 1)] s)"
    using assms(2,3,1,8) by (rule Run_result)
  note all = frames_settle [OF assms(1,4,5,6) n assms(8)]
  from step one run all show ?thesis by blast
qed

lemma wf_falling: "wf three_params falling_state"
  by (simp add: wf_def three_params_simps falling_state_def)

lemma falling_inside: "\<not> outside three_params falling_state 0"
  by (simp add: outside_def three_params_simps falling_state_def)

theorem body_inside_central_radius_settles_witness:
  "wf three_params falling_state \<and> 0 < LargeRadius three_params \<and>
   0 < SmallDiam three_params \<and> 0 < N three_params - 1 \<and> hasFallen falling_state ! 0 = 0 \<and>
   \<not> outside three_params falling_state 0 \<and> (2::int) \<le> 3 \<and>
   nat (3 - 1) \<le> length (TimeSeries falling_state) \<and>
   (\<exists>s1 s'. bodyStep three_params 0 falling_state = Inr s1 \<and>
      restsAt 0 (vadd (Loc falling_state ! 0)
                   (smul (dt three_params) (vadd (VelRad falling_state ! 0) (VelInt falling_state ! 0))))
        (VelRad falling_state ! 0) (VelInt falling_state ! 0) s1 \<and>
      isInContact s1 ! 0 = 0 \<and>
      Run three_params 3 falling_state = Inr s' \<and>
      restsAt 0 (vadd (Loc falling_state ! 0)
                   (smul (dt three_params) (vadd (VelRad falling_state ! 0) (VelInt falling_state ! 0))))
        (VelRad falling_state ! 0) (VelInt falling_state ! 0) s' \<and>
      (\<forall>t < nat (3 - 1).
         TimeSeries s' ! t ! 0 =
           vadd (Loc falling_state ! 0)
             (smul (dt three_params) (vadd (VelRad falling_state ! 0) (VelInt falling_state ! 0)))))"
proof -
  have n: "0 < N three_params - 1" by (simp add: three_params_simps)
  have h: "hasFallen falling_state ! 0 = 0" by (simp add: falling_state_def)
  have c: "(2::int) \<le> 3" by simp
  have b: "nat (3 - 1) \<le> length (TimeSeries falling_state)" by (simp add: falling_state_def)
  from body_inside_central_radius_settles
         [OF wf_falling three_params_positive n h falling_inside c b]
       wf_falling three_params_positive n h falling_inside c b
  show ?thesis by blast
qed

text \<open>
  C4 as stated fails: body 0 starts inside the central radius with the initial cloud
  velocity. The step that marks it still moves it, and its velocity is the initial one,
  not zero, after that step and after a run of two frames.
\<close>

theorem fallen_body_keeps_its_velocity_counterexample:
  "\<not> outside three_params falling_state 0 \<and> hasFallen falling_state ! 0 = 0 \<and>
   Loc falling_state ! 0 = Vec3 1750 1795 1750 \<and>
   bodyStep three_params 0 falling_state = Inr (afterStep three_params 0 falling_state) \<and>
   hasFallen (afterStep three_params 0 falling_state) ! 0 = 1 \<and>
   Loc (afterStep three_params 0 falling_state) ! 0 = Vec3 1750 1800 1750 \<and>
   VelRad (afterStep three_params 0 falling_state) ! 0 = Vec3 0 5000 0 \<and>
   Run three_params 3 falling_state
     = Inr (fold (afterFrame three_params) [0..<2] falling_state) \<and>
   VelRad (fold (afterFrame three_params) [0..<2] falling_state) ! 0 = Vec3 0 5000 0 \<and>
   Loc (fold (afterFrame three_params) [0..<2] falling_state) ! 0 = Vec3 1750 1800 1750"
proof -
  have n: "0 < N three_params - 1" and i: "0 < N three_params"
    by (simp_all add: three_params_simps)
  have h: "hasFallen falling_state ! 0 = 0" by (simp add: falling_state_def)
  have b: "2 \<le> length (TimeSeries falling_state)" by (simp add: falling_state_def)
  have v: "Loc falling_state ! 0 = Vec3 1750 1795 1750"
    "VelRad falling_state ! 0 = Vec3 0 5000 0" "VelInt falling_state ! 0 = vzero"
    by (simp_all add: falling_state_def)
  have x: "vadd (Loc falling_state ! 0)
             (smul (dt three_params) (vadd (VelRad falling_state ! 0) (VelInt falling_state ! 0)))
           = Vec3 1750 1800 1750"
    by (simp add: v three_params_simps vzero_def)
  have step: "bodyStep three_params 0 falling_state = Inr (afterStep three_params 0 falling_state)"
    using wf_falling i three_params_positive by (rule bodyStep_result)
  have run: "Run three_params 3 falling_state
               = Inr (fold (afterFrame three_params) [0..<2] falling_state)"
    using Run_result [OF three_params_positive wf_falling, of 3] b by simp
  from afterStep_inside(1) [OF wf_falling i h falling_inside, unfolded x]
  have one: "restsAt 0 (Vec3 1750 1800 1750) (Vec3 0 5000 0) vzero
               (afterStep three_params 0 falling_state)"
    by (simp add: v)
  from frames_settle(1) [OF wf_falling n h falling_inside _ b, unfolded x]
  have two: "restsAt 0 (Vec3 1750 1800 1750) (Vec3 0 5000 0) vzero
               (fold (afterFrame three_params) [0..<2] falling_state)"
    by (simp add: v)
  from one two step run falling_inside h v show ?thesis
    by (simp add: restsAt_def)
qed

subsection \<open>The frames that a run records\<close>

lemma TimeSeries_fold_afterFrame_other:
  "t \<notin> set ts \<Longrightarrow> TimeSeries (fold (afterFrame p) ts s) ! t = TimeSeries s ! t"
proof (induction ts arbitrary: s)
  case Nil
  show ?case by simp
next
  case (Cons u ts)
  then have "TimeSeries (afterFrame p u s) ! t = TimeSeries s ! t"
    by (simp add: afterFrame_def Let_def)
  with Cons show ?case by simp
qed

text \<open>
  C2 fails on the code: \<^verbatim>\<open>Run(dtCount)\<close> loops over \<^verbatim>\<open>range(dtCount-1)\<close>, so it
  executes \<open>dtCount - 1\<close> frames and never writes the last of the \<open>dtCount\<close> columns
  of the buffer, which is after the run what it was before (zeros in the source).
\<close>

theorem Run_never_writes_the_last_frame:
  assumes "wf p s" and "0 < LargeRadius p" and "0 < SmallDiam p"
    and "1 \<le> dtCount" and "nat dtCount \<le> length (TimeSeries s)"
  shows "\<exists>s'. Run p dtCount s = Inr s' \<and>
           TimeSeries s' ! nat (dtCount - 1) = TimeSeries s ! nat (dtCount - 1)"
proof -
  from assms(5) have "nat (dtCount - 1) \<le> length (TimeSeries s)" by simp
  with assms(2,3,1)
  have "Run p dtCount s = Inr (fold (afterFrame p) [0..<nat (dtCount - 1)] s)"
    by (rule Run_result)
  moreover have "TimeSeries (fold (afterFrame p) [0..<nat (dtCount - 1)] s) ! nat (dtCount - 1)
                   = TimeSeries s ! nat (dtCount - 1)"
    by (rule TimeSeries_fold_afterFrame_other) simp
  ultimately show ?thesis by simp
qed

theorem Run_never_writes_the_last_frame_witness:
  "wf three_params falling_state \<and> 0 < LargeRadius three_params \<and>
   0 < SmallDiam three_params \<and> (1::int) \<le> 2 \<and>
   nat 2 \<le> length (TimeSeries falling_state) \<and>
   (\<exists>s'. Run three_params 2 falling_state = Inr s' \<and>
      TimeSeries s' ! nat (2 - 1) = TimeSeries falling_state ! nat (2 - 1) \<and>
      TimeSeries s' ! 1 ! 2 = Vec3 0 0 0 \<and> Loc s' ! 2 = Vec3 1750 1820 1750)"
proof -
  have c: "(1::int) \<le> 2" by simp
  have b: "nat 2 \<le> length (TimeSeries falling_state)" by (simp add: falling_state_def)
  from Run_never_writes_the_last_frame [OF wf_falling three_params_positive c b]
  obtain s' where run: "Run three_params 2 falling_state = Inr s'"
    and col: "TimeSeries s' ! nat (2 - 1) = TimeSeries falling_state ! nat (2 - 1)"
    by blast
  from col have z: "TimeSeries s' ! 1 ! 2 = Vec3 0 0 0"
    by (simp add: falling_state_def vzero_def)
  have "Run three_params 2 falling_state = Inr (afterFrame three_params 0 falling_state)"
    using Run_result [OF three_params_positive wf_falling, of 2] b by simp
  with run have s': "s' = afterFrame three_params 0 falling_state" by simp
  have "sameBody 2 falling_state (fold (afterStep three_params) [0..<N three_params - 1] falling_state)"
    by (rule fold_afterStep_absent) (simp add: three_params_simps)
  then have "Loc s' ! 2 = Vec3 1750 1820 1750"
    by (simp add: s' afterFrame_def Let_def sameBody_def) (simp add: falling_state_def)
  with run col z wf_falling three_params_positive c b show ?thesis by blast
qed

subsection \<open>The order of the updates within a frame\<close>

lemma forcePass_result:
  assumes "0 < LargeRadius p" and "0 < SmallDiam p"
  shows "\<forall>i \<in> set js. i < N p \<Longrightarrow> forcePass p js s = Inr (fold (afterAcc p) js s)"
  by (induction js arbitrary: s) (simp_all add: findCurrentAcc_result assms)

lemma integratePass_result:
  "wf p s \<Longrightarrow> \<forall>i \<in> set js. i < N p \<Longrightarrow>
   integratePass p js s = Inr (fold (\<lambda>i s'. afterVel p i (afterLoc p i s')) js s)"
proof (induction js arbitrary: s)
  case Nil
  show ?case by simp
next
  case (Cons j js)
  from Cons.prems have "j < length (VelInt (afterLoc p j s))"
    by (simp add: wf_def)
  with Cons.prems have "findNextVel p j (afterLoc p j s) = Inr (afterVel p j (afterLoc p j s))"
    by (simp add: findNextVel_result)
  moreover have "integratePass p js (afterVel p j (afterLoc p j s))
                   = Inr (fold (\<lambda>i s'. afterVel p i (afterLoc p i s')) js (afterVel p j (afterLoc p j s)))"
    using Cons.prems by (intro Cons.IH) simp_all
  ultimately show ?case using Cons.prems by (simp add: findNextLoc_result)
qed

lemma wf_fold_afterAcc [simp]: "wf p (fold (afterAcc p) js s) = wf p s"
  by (induction js arbitrary: s) simp_all

lemma TimeSeries_fold_afterAcc [simp]: "TimeSeries (fold (afterAcc p) js s) = TimeSeries s"
  by (induction js arbitrary: s) simp_all

lemma TimeSeries_fold_integrate [simp]:
  "TimeSeries (fold (\<lambda>i s'. afterVel p i (afterLoc p i s')) js s) = TimeSeries s"
  by (induction js arbitrary: s) simp_all

lemma twoPhaseFrame_result:
  assumes "0 < LargeRadius p" and "0 < SmallDiam p" and "wf p s" and "t < length (TimeSeries s)"
  shows "twoPhaseFrame p t s = Inr (afterTwoPhase p t s)"
proof -
  let ?active = "filter (\<lambda>i. hasFallen s ! i = 0) [0..<N p - 1]"
  have a: "\<forall>i \<in> set ?active. i < N p" by auto
  then have f: "forcePass p ?active s = Inr (fold (afterAcc p) ?active s)"
    by (rule forcePass_result [OF assms(1,2)])
  have "wf p (fold (afterAcc p) ?active s)" using assms(3) by simp
  then have g: "integratePass p ?active (fold (afterAcc p) ?active s)
      = Inr (fold (\<lambda>i s'. afterVel p i (afterLoc p i s')) ?active (fold (afterAcc p) ?active s))"
    using a by (rule integratePass_result)
  show ?thesis
    using assms(4) f g by (simp add: twoPhaseFrame_def afterTwoPhase_def Let_def snapshot_def)
qed

text \<open>
  C6 (as amended). Within a frame the bodies are processed one after the other, each
  with its force computation followed at once by its integration. When the turn of an
  active body \<open>i\<close> comes, in the state \<open>sb\<close>, the bodies before \<open>i\<close> are already at
  the positions they have at the end of the pass and the bodies from \<open>i\<close> on are where
  they were at the start of the frame; the accelerations and the contact flag that body
  \<open>i\<close> has at the end of the pass are those that \<^verbatim>\<open>findCurrentAcc\<close> computes in \<open>sb\<close>.
\<close>

theorem force_pass_reads_positions_updated_in_the_same_frame:
  assumes "wf p s" and "0 < LargeRadius p" and "0 < SmallDiam p"
    and "i < N p - 1" and "hasFallen s ! i = 0"
  shows "\<exists>sb sa sf. bodyLoop p [0..<i] s = Inr sb \<and> findCurrentAcc p i sb = Inr sa \<and>
           bodyLoop p [0..<N p - 1] s = Inr sf \<and>
           (\<forall>j < i. Loc sb ! j = Loc sf ! j) \<and>
           (\<forall>j. i \<le> j \<longrightarrow> Loc sb ! j = Loc s ! j) \<and>
           AccRad sf ! i = AccRad sa ! i \<and> AccInt sf ! i = AccInt sa ! i \<and>
           isInContact sf ! i = isInContact sa ! i"
proof -
  let ?sb = "fold (afterStep p) [0..<i] s"
  let ?sa = "afterAcc p i ?sb"
  let ?si = "afterStep p i ?sb"
  let ?sf = "fold (afterStep p) [0..<N p - 1] s"
  from assms(4) have i: "i < N p" by simp
  have whole: "?sf = fold (afterStep p) [Suc i..<N p - 1] ?si"
    by (subst upt_split [OF assms(4)]) simp
  have b1: "bodyLoop p [0..<i] s = Inr ?sb"
    using assms(2,3,1) i by (intro bodyLoop_result) auto
  have b2: "bodyLoop p [0..<N p - 1] s = Inr ?sf"
    using assms(2,3,1) by (intro bodyLoop_result) auto
  have f: "findCurrentAcc p i ?sb = Inr ?sa"
    using i assms(2,3) by (rule findCurrentAcc_result)
  have before: "\<forall>j < i. Loc ?sb ! j = Loc ?sf ! j"
  proof (intro allI impI)
    fix j assume "j < i"
    then have "j \<notin> set (i # [Suc i..<N p - 1])" by simp
    then have "sameBody j ?sb (fold (afterStep p) (i # [Suc i..<N p - 1]) ?sb)"
      by (rule fold_afterStep_absent)
    then show "Loc ?sb ! j = Loc ?sf ! j"
      unfolding whole by (simp add: sameBody_def)
  qed
  have later: "\<forall>j. i \<le> j \<longrightarrow> Loc ?sb ! j = Loc s ! j"
  proof (intro allI impI)
    fix j assume "i \<le> j"
    then have "j \<notin> set [0..<i]" by simp
    then have "sameBody j s ?sb" by (rule fold_afterStep_absent)
    then show "Loc ?sb ! j = Loc s ! j" by (simp add: sameBody_def)
  qed
  have "sameBody i s ?sb" by (rule fold_afterStep_absent) simp
  with assms(5) have h: "hasFallen ?sb ! i = 0" by (simp add: sameBody_def)
  have w: "wf p ?sb" using assms(1) by simp
  note a = afterStep_active [OF w i h]
  have "sameBody i ?si ?sf"
    unfolding whole by (rule fold_afterStep_absent) simp
  then have "AccRad ?sf ! i = AccRad ?sa ! i" "AccInt ?sf ! i = AccInt ?sa ! i"
    "isInContact ?sf ! i = isInContact ?sa ! i"
    by (simp_all add: sameBody_def a)
  with b1 b2 f before later show ?thesis by blast
qed

theorem force_pass_reads_positions_updated_in_the_same_frame_witness:
  "wf three_params falling_state \<and> 0 < LargeRadius three_params \<and>
   0 < SmallDiam three_params \<and> 1 < N three_params - 1 \<and> hasFallen falling_state ! 1 = 0 \<and>
   (\<exists>sb sa sf. bodyLoop three_params [0..<1] falling_state = Inr sb \<and>
      findCurrentAcc three_params 1 sb = Inr sa \<and>
      bodyLoop three_params [0..<N three_params - 1] falling_state = Inr sf \<and>
      (\<forall>j < 1. Loc sb ! j = Loc sf ! j) \<and>
      (\<forall>j. 1 \<le> j \<longrightarrow> Loc sb ! j = Loc falling_state ! j) \<and>
      AccRad sf ! 1 = AccRad sa ! 1 \<and> AccInt sf ! 1 = AccInt sa ! 1 \<and>
      isInContact sf ! 1 = isInContact sa ! 1)"
proof -
  have n: "1 < N three_params - 1" by (simp add: three_params_simps)
  have h: "hasFallen falling_state ! 1 = 0" by (simp add: falling_state_def)
  from force_pass_reads_positions_updated_in_the_same_frame
         [OF wf_falling three_params_positive n h]
       wf_falling three_params_positive n h
  show ?thesis by blast
qed

lemma outside_afterAcc [simp]: "outside p (afterAcc q i s) j = outside p s j"
  by (simp add: outside_def)

lemma touching_afterAcc [simp]: "touching p (afterAcc q i s) j k = touching p s j k"
  by (simp add: touching_def)

lemma falling_outside1: "outside three_params falling_state 1"
  by (simp add: outside_def three_params_simps falling_state_def)

lemma falling_touch: "\<not> touching three_params falling_state 1 0"
  by (simp add: touching_def three_params_simps falling_state_def)

lemma falling_sequential_contact:
  "isInContact (afterFrame three_params 0 falling_state) ! 1 = 1"
proof -
  let ?p = three_params
  let ?s1 = "afterStep ?p 0 falling_state"
  have i0: "0 < N ?p" and i1: "1 < N ?p" by (simp_all add: three_params_simps)
  have h0: "hasFallen falling_state ! 0 = 0" and h1: "hasFallen falling_state ! 1 = 0"
    by (simp_all add: falling_state_def)
  have x: "vadd (Loc falling_state ! 0)
             (smul (dt ?p) (vadd (VelRad falling_state ! 0) (VelInt falling_state ! 0)))
           = Vec3 1750 1800 1750"
    by (simp add: falling_state_def three_params_simps vzero_def)
  from afterStep_inside(1) [OF wf_falling i0 h0 falling_inside, unfolded x]
  have l0: "Loc ?s1 ! 0 = Vec3 1750 1800 1750" by (simp add: restsAt_def)
  have same: "sameBody 1 falling_state ?s1" by (rule afterStep_other) simp
  then have l1: "Loc ?s1 ! 1 = Vec3 1750 1810 1750"
    by (simp add: sameBody_def falling_state_def)
  from same h1 have f1: "hasFallen ?s1 ! 1 = 0" by (simp add: sameBody_def)
  from same falling_outside1 have out: "outside ?p ?s1 1" by (simp add: sameBody_outside)
  have "touching ?p ?s1 1 0"
    using l0 l1 by (simp add: touching_def three_params_simps)
  then have ex: "\<exists>j \<in> set [0..<N ?p - 1]. touching ?p ?s1 1 j"
    by (simp add: three_params_simps upt_3)
  have w: "wf ?p ?s1" using wf_falling by simp
  then have "1 < length (isInContact ?s1)" using i1 by (simp add: wf_def)
  with out ex have a: "isInContact (afterAcc ?p 1 ?s1) ! 1 = 1"
    by (simp add: afterAcc_def)
  have "isInContact (afterStep ?p 1 ?s1) ! 1 = 1"
    using afterStep_active(1) [OF w i1 f1] a by simp
  moreover have "[0..<N ?p - 1] = [0, 1]" by (simp add: three_params_simps upt_3)
  ultimately show ?thesis
    by (simp add: afterFrame_def Let_def)
qed

lemma falling_two_phase_contact:
  "isInContact (afterTwoPhase three_params 0 falling_state) ! 1 = 0"
proof -
  let ?p = three_params
  have act: "filter (\<lambda>i. hasFallen falling_state ! i = 0) [0..<N ?p - 1] = [0, 1]"
    by (simp add: three_params_simps upt_3 falling_state_def)
  have no: "\<not> (\<exists>j \<in> set [0..<N ?p - 1]. touching ?p falling_state 1 j)"
    using falling_touch by (simp add: three_params_simps upt_3) (simp add: touching_def)
  have "1 < length (isInContact (afterAcc ?p 0 falling_state))"
    by (simp add: afterAcc_def falling_state_def)
  with no falling_outside1
  have "isInContact (afterAcc ?p 1 (afterAcc ?p 0 falling_state)) ! 1 = 0"
    by (simp add: afterAcc_def [of ?p "Suc 0"])
  then show ?thesis
    using act by (simp add: afterTwoPhase_def Let_def)
qed

text \<open>
  C6 as stated fails: body 0 moves in its own step to within the collision diameter of
  body 1, and the force computation of body 1, which comes after it in the same frame,
  finds it there; computed from the positions at the start of the frame, as in the
  two-phase reference, body 1 is not in contact.
\<close>

theorem sequential_frame_differs_from_two_phase_counterexample:
  "frame three_params 0 falling_state = Inr (afterFrame three_params 0 falling_state) \<and>
   twoPhaseFrame three_params 0 falling_state = Inr (afterTwoPhase three_params 0 falling_state) \<and>
   isInContact (afterFrame three_params 0 falling_state) ! 1 = 1 \<and>
   isInContact (afterTwoPhase three_params 0 falling_state) ! 1 = 0 \<and>
   frame three_params 0 falling_state \<noteq> twoPhaseFrame three_params 0 falling_state"
proof -
  have t: "0 < length (TimeSeries falling_state)" by (simp add: falling_state_def)
  have a: "frame three_params 0 falling_state = Inr (afterFrame three_params 0 falling_state)"
    using three_params_positive wf_falling t by (rule frame_result)
  have b: "twoPhaseFrame three_params 0 falling_state
             = Inr (afterTwoPhase three_params 0 falling_state)"
    using three_params_positive wf_falling t by (rule twoPhaseFrame_result)
  have "afterFrame three_params 0 falling_state \<noteq> afterTwoPhase three_params 0 falling_state"
    using falling_sequential_contact falling_two_phase_contact by auto
  with a b falling_sequential_contact falling_two_phase_contact show ?thesis by simp
qed

subsection \<open>Configurations\<close>

lemma initLoop_result:
  "wf p s \<Longrightarrow> \<forall>i \<in> set js. i < length x \<and> i < length y \<and> i < length z \<and> i < N p \<Longrightarrow>
   \<exists>s'. initLoop p x y z js s = Inr s' \<and> wf p s' \<and> TimeSeries s' = TimeSeries s"
proof (induction js arbitrary: s)
  case Nil
  then show ?case by simp
next
  case (Cons j js)
  let ?s1 = "s\<lparr> Loc := (Loc s)[j := Vec3 (real_of_int (x ! j)) (real_of_int (y ! j)) (real_of_int (z ! j))],
               VelRad := (VelRad s)[j := Vec3 0 (Vel0 p) 0],
               VelInt := (VelInt s)[j := Vec3 0 0 0] \<rparr>"
  from Cons.prems have b: "initBody p x y z j s = Inr ?s1"
    by (simp add: initBody_def)
  from Cons.prems have "wf p ?s1" by (simp add: wf_def)
  moreover from Cons.prems
  have "\<forall>i \<in> set js. i < length x \<and> i < length y \<and> i < length z \<and> i < N p" by simp
  ultimately obtain s' where "initLoop p x y z js ?s1 = Inr s'" "wf p s'"
    "TimeSeries s' = TimeSeries ?s1"
    using Cons.IH by blast
  with b show ?case by simp
qed

text \<open>
  C9 (as amended). Nothing in the code validates the configuration. Whatever the body
  count (zero included), the frame count (zero or negative included), the timestep (zero
  or negative included) and the collision diameter (larger than the generation cube
  included), \<^verbatim>\<open>initialiseStates\<close> succeeds as soon as the three shuffled lists hold
  \<open>N - 1\<close> values each, and \<^verbatim>\<open>Run\<close> then completes without an error, given positive
  radii and a buffer of at least \<open>dtCount - 1\<close> frames; with a frame count of at most
  one it returns the state as initialised.
\<close>

theorem no_configuration_is_rejected:
  assumes "wf p s" and "N p - 1 \<le> length x" and "N p - 1 \<le> length y" and "N p - 1 \<le> length z"
    and "0 < LargeRadius p" and "0 < SmallDiam p"
    and "nat (dtCount - 1) \<le> length (TimeSeries s)"
  shows "\<exists>s1 s2. initialiseStates p x y z s = Inr s1 \<and> Run p dtCount s1 = Inr s2 \<and>
           (dtCount \<le> 1 \<longrightarrow> s2 = s1)"
proof -
  from assms(2,3,4)
  have "\<forall>i \<in> set [0..<N p - 1]. i < length x \<and> i < length y \<and> i < length z \<and> i < N p"
    by auto
  with assms(1) obtain s1 where init: "initialiseStates p x y z s = Inr s1"
    and w: "wf p s1" and ts: "TimeSeries s1 = TimeSeries s"
    unfolding initialiseStates_def using initLoop_result by blast
  from assms(7) ts have "nat (dtCount - 1) \<le> length (TimeSeries s1)" by simp
  with assms(5,6) w
  have run: "Run p dtCount s1 = Inr (fold (afterFrame p) [0..<nat (dtCount - 1)] s1)"
    by (rule Run_result)
  have "dtCount \<le> 1 \<longrightarrow> fold (afterFrame p) [0..<nat (dtCount - 1)] s1 = s1"
    by simp
  with init run show ?thesis by blast
qed

lemma backward_params_simps:
  "N backward_params = 3" "dt backward_params = - (1 / 1000)" "SmallDiam backward_params = 500"
  "GenCubeLength backward_params = 500" "LargeRadius backward_params = 50"
  by (simp_all add: backward_params_def three_params_def src_params_def LargeRadius_def)

lemma length_pyrange [simp]: "length (pyrange lo hi) = nat (hi - lo)"
  by (simp add: pyrange_def)

lemma length_xValues: "length (xValues backward_params) = 500"
  by (simp add: xValues_def GenCubeCentre_def SpaceLength_def backward_params_simps pyint_def)

lemma length_yValues: "length (yValues backward_params) = 500"
  by (simp add: yValues_def SpaceLength_def backward_params_simps pyint_def)

theorem no_configuration_is_rejected_witness:
  "wf backward_params stacked_state \<and>
   N backward_params - 1 \<le> length (xValues backward_params) \<and>
   N backward_params - 1 \<le> length (yValues backward_params) \<and>
   0 < LargeRadius backward_params \<and> 0 < SmallDiam backward_params \<and>
   nat (2 - 1) \<le> length (TimeSeries stacked_state) \<and>
   dt backward_params < 0 \<and> GenCubeLength backward_params \<le> SmallDiam backward_params \<and>
   (\<exists>s1 s2. initialiseStates backward_params (xValues backward_params)
               (yValues backward_params) (yValues backward_params) stacked_state = Inr s1 \<and>
      Run backward_params 2 s1 = Inr s2 \<and> ((2::int) \<le> 1 \<longrightarrow> s2 = s1))"
proof -
  have w: "wf backward_params stacked_state"
    by (simp add: wf_def backward_params_simps stacked_state_def)
  have x: "N backward_params - 1 \<le> length (xValues backward_params)"
    by (simp add: length_xValues backward_params_simps)
  have y: "N backward_params - 1 \<le> length (yValues backward_params)"
    by (simp add: length_yValues backward_params_simps)
  have r: "0 < LargeRadius backward_params" and d: "0 < SmallDiam backward_params"
    by (simp_all add: backward_params_simps)
  have b: "nat (2 - 1) \<le> length (TimeSeries stacked_state)"
    by (simp add: stacked_state_def)
  have e: "dt backward_params < 0" "GenCubeLength backward_params \<le> SmallDiam backward_params"
    by (simp_all add: backward_params_simps)
  from no_configuration_is_rejected [OF w x y y r d b] w x y r d b e
  show ?thesis by blast
qed

text \<open>
  C9 as stated fails: with no body, a zero timestep, a collision diameter equal to the
  length of the generation cube and a frame count of zero, initialisation and the run
  both return normally.
\<close>

theorem degenerate_configuration_runs_counterexample:
  "N degenerate_params = 0 \<and> dt degenerate_params \<le> 0 \<and>
   GenCubeLength degenerate_params \<le> SmallDiam degenerate_params \<and>
   initialiseStates degenerate_params (xValues degenerate_params) (yValues degenerate_params)
     (yValues degenerate_params) empty_state = Inr empty_state \<and>
   Run degenerate_params 0 empty_state = Inr empty_state"
  by (simp add: degenerate_params_def src_params_def initialiseStates_def Run_def)

subsection \<open>The frames that a run does record\<close>

lemma length_TimeSeries_fold_afterFrame [simp]:
  "length (TimeSeries (fold (afterFrame p) ts s)) = length (TimeSeries s)"
  by (induction ts arbitrary: s) simp_all

lemma Loc_afterFrame:
  "Loc (afterFrame p t s) = Loc (fold (afterStep p) [0..<N p - 1] s)"
  by (simp add: afterFrame_def Let_def)

lemma run_records_each_frame:
  assumes "t < n" and "n \<le> length (TimeSeries s)"
  shows "TimeSeries (fold (afterFrame p) [0..<n] s) ! t = Loc (fold (afterFrame p) [0..<Suc t] s)"
proof -
  let ?a = "fold (afterFrame p) [0..<t] s"
  have "[0..<n] = [0..<t] @ t # [Suc t..<n]"
    using assms(1) by (rule upt_split)
  then have "fold (afterFrame p) [0..<n] s = fold (afterFrame p) [Suc t..<n] (afterFrame p t ?a)"
    by simp
  moreover have "TimeSeries (fold (afterFrame p) [Suc t..<n] (afterFrame p t ?a)) ! t
                   = TimeSeries (afterFrame p t ?a) ! t"
    by (rule TimeSeries_fold_afterFrame_other) simp
  moreover from assms have "t < length (TimeSeries ?a)" by simp
  then have "TimeSeries (afterFrame p t ?a) ! t = Loc (afterFrame p t ?a)"
    by (simp add: afterFrame_def Let_def)
  ultimately show ?thesis by simp
qed

subsection \<open>Saving and loading\<close>

lemma decade:
  assumes "0 < a"
  shows "10 powi \<lfloor>log 10 a\<rfloor> \<le> a" and "a < 10 powi (\<lfloor>log 10 a\<rfloor> + 1)"
proof -
  have "10 powr real_of_int \<lfloor>log 10 a\<rfloor> \<le> a \<and> a < 10 powr real_of_int (\<lfloor>log 10 a\<rfloor> + 1)"
    using floor_log_eq_powr_iff [of a 10 "\<lfloor>log 10 a\<rfloor>"] assms by simp
  moreover have "real_of_int \<lfloor>log 10 a\<rfloor> + 1 = real_of_int (\<lfloor>log 10 a\<rfloor> + 1)"
    by simp
  ultimately
  have "10 powr real_of_int \<lfloor>log 10 a\<rfloor> \<le> a" "a < 10 powr real_of_int (\<lfloor>log 10 a\<rfloor> + 1)"
    by (simp_all only:)
  then show "10 powi \<lfloor>log 10 a\<rfloor> \<le> a" and "a < 10 powi (\<lfloor>log 10 a\<rfloor> + 1)"
    by (simp_all only: powr_real_of_int' [of 10, simplified])
qed

lemma mantissa_close:
  assumes "0 < a"
  shows "\<bar>real_of_int (round (a * 10 powi (18 - e))) * 10 powi (e - 18) - a\<bar> \<le> 10 powi (e - 18) / 2"
proof -
  let ?s = "(10::real) powi (18 - e)"
  let ?t = "(10::real) powi (e - 18)"
  have st: "?s * ?t = 1"
    by (simp flip: power_int_add)
  have t: "0 < ?t" by simp
  have "\<bar>real_of_int (round (a * ?s)) - a * ?s\<bar> \<le> 1 / 2"
    by (rule of_int_round_abs_le)
  then have "\<bar>real_of_int (round (a * ?s)) - a * ?s\<bar> * ?t \<le> 1 / 2 * ?t"
    using t by (intro mult_right_mono) simp_all
  moreover have "\<bar>real_of_int (round (a * ?s)) - a * ?s\<bar> * ?t
                   = \<bar>real_of_int (round (a * ?s)) * ?t - a * (?s * ?t)\<bar>"
  proof -
    have "\<bar>real_of_int (round (a * ?s)) - a * ?s\<bar> * ?t
            = \<bar>(real_of_int (round (a * ?s)) - a * ?s) * ?t\<bar>"
      using t by (intro abs_mult_pos) simp
    then show ?thesis by (simp add: algebra_simps)
  qed
  ultimately show ?thesis by (simp add: st)
qed

lemma sciValue_fmt18e_abs:
  assumes "0 < a"
  shows "\<bar>sciValue (fmt18e a) - a\<bar> \<le> a * (5 / 10 ^ 19)"
    and "sciValue (fmt18e (- a)) = - sciValue (fmt18e a)"
proof -
  let ?e = "\<lfloor>log 10 a\<rfloor>"
  let ?m = "round (a * 10 powi (18 - ?e))"
  have lo: "10 powi ?e \<le> a" using assms by (rule decade)
  have "(10::real) ^ 18 = 10 powi ?e * 10 powi (18 - ?e)"
    by (simp flip: power_int_add)
  also have "\<dots> \<le> a * 10 powi (18 - ?e)"
    using lo by (intro mult_right_mono) simp_all
  finally have "(10::real) ^ 18 \<le> a * 10 powi (18 - ?e)" .
  then have "round ((10::real) ^ 18) \<le> ?m" by (rule round_mono)
  moreover have "round ((10::real) ^ 18) = 10 ^ 18"
    using round_of_int [of "10 ^ 18"] by simp
  ultimately have mpos: "0 \<le> ?m" by simp
  have val: "sciValue (fmt18e a) = real_of_int ?m * 10 powi (?e - 18)"
  proof (cases "?m = 10 ^ 19")
    case True
    have "(10::real) ^ 18 * 10 powi (?e + 1 - 18) = 10 ^ 19 * 10 powi (?e - 18)"
      by (simp add: power_int_add power_int_diff)
    with True assms show ?thesis by (simp add: fmt18e_def Let_def)
  next
    case False
    with assms mpos show ?thesis by (simp add: fmt18e_def Let_def)
  qed
  have "\<bar>sciValue (fmt18e a) - a\<bar> \<le> 10 powi (?e - 18) / 2"
    unfolding val using assms by (rule mantissa_close)
  also have "(10::real) powi (?e - 18) / 2 = 10 powi ?e * (5 / 10 ^ 19)"
    by (simp add: power_int_diff)
  also have "\<dots> \<le> a * (5 / 10 ^ 19)"
    using lo by (intro mult_right_mono) simp_all
  finally show "\<bar>sciValue (fmt18e a) - a\<bar> \<le> a * (5 / 10 ^ 19)" .
  show "sciValue (fmt18e (- a)) = - sciValue (fmt18e a)"
    using assms by (simp add: fmt18e_def Let_def)
qed

lemma sciValue_fmt18e:
  "\<bar>sciValue (fmt18e x) - x\<bar> \<le> \<bar>x\<bar> * (5 / 10 ^ 19)"
proof -
  consider "x = 0" | "0 < x" | "x < 0" by linarith
  then show ?thesis
  proof cases
    case 1
    then show ?thesis by (simp add: fmt18e_def)
  next
    case 2
    then show ?thesis using sciValue_fmt18e_abs(1) [of x] by simp
  next
    case 3
    then have a: "0 < - x" by simp
    from sciValue_fmt18e_abs [OF a] show ?thesis by simp
  qed
qed

lemma fmt18e_example: "fmt18e 1750 = Sci False 1750000000000000000 3"
proof -
  have "\<lfloor>log 10 (1750::real)\<rfloor> = 3"
    by (subst floor_log_eq_powr_iff) (simp_all flip: powr_realpow)
  then show ?thesis by (simp add: fmt18e_def Let_def)
qed

lemma saved_files:
  "saveNewSim p name s fs (name @ ''X.txt'') = Some (savetxt (axisTable (N p) vx (TimeSeries s)))"
  "saveNewSim p name s fs (name @ ''Y.txt'') = Some (savetxt (axisTable (N p) vy (TimeSeries s)))"
  "saveNewSim p name s fs (name @ ''Z.txt'') = Some (savetxt (axisTable (N p) vz (TimeSeries s)))"
  by (simp_all add: saveNewSim_def Let_def)

lemma length_axisTable [simp]: "length (axisTable n c ts) = n"
  by (simp add: axisTable_def)

lemma length_axisTable_row: "r \<in> set (axisTable n c ts) \<Longrightarrow> length r = length ts"
  by (auto simp: axisTable_def)

lemma axisTable_nth: "i < n \<Longrightarrow> t < length ts \<Longrightarrow> axisTable n c ts ! i ! t = c (ts ! t ! i)"
  by (simp add: axisTable_def)

lemma rows_of_saved:
  assumes "\<forall>r \<in> set T. length r = C" and "1 \<le> C"
  shows "filter (\<lambda>r. r \<noteq> []) (map (map sciValue) (savetxt T)) = map (map reread) T"
proof -
  have "map (map sciValue) (savetxt T) = map (map reread) T"
    by (simp add: savetxt_def reread_def [abs_def] comp_def)
  moreover have "\<forall>r \<in> set (map (map reread) T). r \<noteq> []"
    using assms by auto
  ultimately show ?thesis by simp
qed

lemma stretchRows_same: "\<forall>r \<in> set rs. length r = d \<Longrightarrow> stretchRows d rs = Some rs"
  by (induction rs) (simp_all add: stretch_def)

lemma singleton_list: "length xs = 1 \<Longrightarrow> xs = [hd xs]"
  by (cases xs) simp_all

lemma load_single_column_fails:
  assumes "length T = R" and "\<forall>r \<in> set T. length r = 1" and "2 \<le> R"
  shows "(case loadtxt (savetxt T) of Inl e \<Rightarrow> Inl e | Inr A \<Rightarrow> assignSlice R 1 A) = Inl ValueError"
proof -
  let ?T = "map (map reread) T"
  have rows: "filter (\<lambda>r. r \<noteq> []) (map (map sciValue) (savetxt T)) = ?T"
    using assms(2) by (intro rows_of_saved [where C = 1]) simp_all
  from assms have ne: "?T \<noteq> []" by auto
  from assms(2) have all1: "\<forall>r \<in> set ?T. length r = 1" by simp
  with ne have h1: "length (hd ?T) = 1" by (metis hd_in_set)
  with all1 have uni: "\<not> (\<exists>r \<in> set ?T. length r \<noteq> length (hd ?T))" by simp
  from assms have len: "length ?T \<noteq> 1" by simp
  have "loadtxt (savetxt T) = Inr (Array1 (map hd ?T))"
    unfolding loadtxt_def rows Let_def using ne uni len h1 by (simp only: if_False if_True simp_thms)
  moreover have "stretch 1 (map hd ?T) = None"
    using assms by (simp add: stretch_def)
  ultimately show ?thesis by (simp add: assignSlice_def)
qed

lemma load_round_trip:
  assumes "length T = R" and "\<forall>r \<in> set T. length r = C" and "1 \<le> R" and "1 \<le> C"
    and "\<not> (2 \<le> R \<and> C = 1)"
  shows "(case loadtxt (savetxt T) of Inl e \<Rightarrow> Inl e | Inr A \<Rightarrow> assignSlice R C A)
           = Inr (map (map reread) T)"
proof -
  let ?T = "map (map reread) T"
  have rows: "filter (\<lambda>r. r \<noteq> []) (map (map sciValue) (savetxt T)) = ?T"
    using assms(2,4) by (rule rows_of_saved)
  from assms(1,3) have ne: "?T \<noteq> []" by auto
  from assms(2) have allC: "\<forall>r \<in> set ?T. length r = C" by simp
  with ne have hC: "length (hd ?T) = C" by (metis hd_in_set)
  with allC have uni: "\<not> (\<exists>r \<in> set ?T. length r \<noteq> length (hd ?T))" by simp
  have lenT: "length ?T = R" using assms(1) by simp
  consider (scalar) "R = 1" "C = 1" | (row) "R = 1" "2 \<le> C" | (matrix) "2 \<le> R" "2 \<le> C"
    using assms(3,4,5) by linarith
  then show ?thesis
  proof cases
    case scalar
    then have "loadtxt (savetxt T) = Inr (Array0 (hd (hd ?T)))"
      unfolding loadtxt_def rows Let_def using ne uni lenT hC
      by (simp only: if_False if_True simp_thms)
    moreover from scalar hC have "hd ?T = [hd (hd ?T)]" by (intro singleton_list) simp
    moreover from scalar lenT have "?T = [hd ?T]" by (intro singleton_list) simp
    ultimately have "(case loadtxt (savetxt T) of Inl e \<Rightarrow> Inl e | Inr A \<Rightarrow> assignSlice R C A)
                       = Inr [[hd (hd ?T)]]"
      using scalar by (simp add: assignSlice_def)
    also have "[[hd (hd ?T)]] = ?T"
      using \<open>hd ?T = [hd (hd ?T)]\<close> \<open>?T = [hd ?T]\<close> by metis
    finally show ?thesis .
  next
    case row
    then have c1: "length (hd ?T) \<noteq> 1" using hC by simp
    from row lenT have l1: "length ?T = 1" by simp
    have "loadtxt (savetxt T) = Inr (Array1 (hd ?T))"
      unfolding loadtxt_def rows Let_def using ne uni l1 c1
      by (simp only: if_False if_True simp_thms)
    moreover have "stretch C (hd ?T) = Some (hd ?T)"
      using hC by (simp add: stretch_def)
    moreover from l1 have "?T = [hd ?T]" by (rule singleton_list)
    ultimately show ?thesis
      using row by (simp add: assignSlice_def)
  next
    case matrix
    then have c1: "length (hd ?T) \<noteq> 1" and l1: "length ?T \<noteq> 1" using hC lenT by simp_all
    have "loadtxt (savetxt T) = Inr (Array2 ?T)"
      unfolding loadtxt_def rows Let_def using ne uni l1 c1
      by (simp only: if_False if_True simp_thms)
    moreover have "stretchRows C ?T = Some ?T"
      using allC by (rule stretchRows_same)
    moreover have "stretch R ?T = Some ?T"
      using lenT by (simp add: stretch_def)
    ultimately show ?thesis by (simp add: assignSlice_def)
  qed
qed

lemma reread_close: "\<bar>reread x - x\<bar> \<le> \<bar>x\<bar> * (5 / 10 ^ 19)"
  unfolding reread_def by (rule sciValue_fmt18e)

lemma loadAxis_fails:
  assumes "fs fname = Some (savetxt (axisTable n c ts))" and "2 \<le> n" and "length ts = 1"
  shows "loadAxis fs fname n (length ts) = Inl ValueError"
proof -
  have "\<forall>r \<in> set (axisTable n c ts). length r = 1"
    using assms(3) by (simp add: length_axisTable_row)
  with assms(2) have
    "(case loadtxt (savetxt (axisTable n c ts)) of
        Inl e \<Rightarrow> Inl e | Inr A \<Rightarrow> assignSlice n (length ts) A)
       = Inl ValueError"
    unfolding assms(3) by (intro load_single_column_fails) simp_all
  with assms(1) show ?thesis by (simp add: loadAxis_def)
qed

lemma loadAxis_round_trip:
  assumes "fs fname = Some (savetxt (axisTable n c ts))" and "1 \<le> n" and "1 \<le> length ts"
    and "\<not> (2 \<le> n \<and> length ts = 1)"
  shows "\<exists>X. loadAxis fs fname n (length ts) = Inr X \<and> agrees n c ts X"
proof -
  let ?T = "axisTable n c ts"
  let ?X = "map (map reread) ?T"
  have rows: "\<forall>r \<in> set ?T. length r = length ts"
    by (simp add: length_axisTable_row)
  then have
    "(case loadtxt (savetxt ?T) of Inl e \<Rightarrow> Inl e | Inr A \<Rightarrow> assignSlice n (length ts) A) = Inr ?X"
    using assms(2,3,4) by (intro load_round_trip) simp_all
  with assms(1) have l: "loadAxis fs fname n (length ts) = Inr ?X"
    by (simp add: loadAxis_def)
  have "\<bar>?X ! i ! t - c (ts ! t ! i)\<bar> \<le> \<bar>c (ts ! t ! i)\<bar> * (5 / 10 ^ 19)"
    if "i < n" and "t < length ts" for i t
  proof -
    from that have "?T ! i ! t = c (ts ! t ! i)" by (rule axisTable_nth)
    moreover from that rows have "t < length (?T ! i)" by simp
    ultimately have "?X ! i ! t = reread (c (ts ! t ! i))"
      using that by simp
    then show ?thesis using reread_close [of "c (ts ! t ! i)"] by simp
  qed
  with rows have "agrees n c ts ?X" by (simp add: agrees_def)
  with l show ?thesis by blast
qed

text \<open>
  C8 fails on the code for a time series of a single frame. For a buffer of at least one
  body and one frame, saved by \<^verbatim>\<open>saveNewSim\<close> and loaded by \<^verbatim>\<open>loadSavedSim\<close> with
  the same dimensions: with two or more bodies and exactly one frame each file holds a
  single column, \<^verbatim>\<open>np.loadtxt\<close> returns it as a one-dimensional array and the
  assignment to the slice raises \<^verbatim>\<open>ValueError\<close>; in every other case the three loaded
  tables have the shape of the buffer and agree with it entry by entry within a relative
  error of \<open>5 / 10^19\<close>.
\<close>

theorem save_then_load:
  assumes "1 \<le> N p" and "1 \<le> length (TimeSeries s)"
  shows "if 2 \<le> N p \<and> length (TimeSeries s) = 1
         then loadSavedSim (saveNewSim p name s fs) name (N p) (length (TimeSeries s))
                = Inl ValueError
         else \<exists>X Y Z.
                loadSavedSim (saveNewSim p name s fs) name (N p) (length (TimeSeries s))
                  = Inr (X, Y, Z) \<and>
                agrees (N p) vx (TimeSeries s) X \<and> agrees (N p) vy (TimeSeries s) Y \<and>
                agrees (N p) vz (TimeSeries s) Z"
proof (cases "2 \<le> N p \<and> length (TimeSeries s) = 1")
  case True
  then have "loadAxis (saveNewSim p name s fs) (name @ ''X.txt'') (N p) (length (TimeSeries s))
               = Inl ValueError"
    by (intro loadAxis_fails [where c = vx]) (simp_all add: saved_files)
  with True show ?thesis by (simp add: loadSavedSim_def)
next
  case False
  obtain X where X: "loadAxis (saveNewSim p name s fs) (name @ ''X.txt'') (N p) (length (TimeSeries s)) = Inr X"
    "agrees (N p) vx (TimeSeries s) X"
    using loadAxis_round_trip [of "saveNewSim p name s fs" "name @ ''X.txt''" "N p" vx "TimeSeries s",
        OF saved_files(1) assms False] by blast
  obtain Y where Y: "loadAxis (saveNewSim p name s fs) (name @ ''Y.txt'') (N p) (length (TimeSeries s)) = Inr Y"
    "agrees (N p) vy (TimeSeries s) Y"
    using loadAxis_round_trip [of "saveNewSim p name s fs" "name @ ''Y.txt''" "N p" vy "TimeSeries s",
        OF saved_files(2) assms False] by blast
  obtain Z where Z: "loadAxis (saveNewSim p name s fs) (name @ ''Z.txt'') (N p) (length (TimeSeries s)) = Inr Z"
    "agrees (N p) vz (TimeSeries s) Z"
    using loadAxis_round_trip [of "saveNewSim p name s fs" "name @ ''Z.txt''" "N p" vz "TimeSeries s",
        OF saved_files(3) assms False] by blast
  from X Y Z have
    "loadSavedSim (saveNewSim p name s fs) name (N p) (length (TimeSeries s)) = Inr (X, Y, Z)"
    by (simp add: loadSavedSim_def)
  with X Y Z False show ?thesis by auto
qed

theorem save_then_load_witness:
  "1 \<le> N three_params \<and> 1 \<le> length (TimeSeries single_frame_state) \<and>
   loadSavedSim (saveNewSim three_params ''sim'' single_frame_state (\<lambda>f. None)) ''sim''
       (N three_params) (length (TimeSeries single_frame_state))
     = Inl ValueError"
proof -
  have n: "1 \<le> N three_params" by (simp add: three_params_simps)
  have f: "1 \<le> length (TimeSeries single_frame_state)" by (simp add: single_frame_state_def)
  have c: "2 \<le> N three_params \<and> length (TimeSeries single_frame_state) = 1"
    by (simp add: three_params_simps single_frame_state_def)
  from save_then_load [OF n f, of "''sim''" "\<lambda>f. None"] c n f show ?thesis
    by (simp only: if_True simp_thms)
qed

text \<open>A series of two frames is loaded back.\<close>

lemma two_frames_load:
  "\<exists>X Y Z. loadSavedSim (saveNewSim three_params ''sim'' falling_state (\<lambda>f. None)) ''sim'' 3 2
             = Inr (X, Y, Z) \<and>
           agrees 3 vx (TimeSeries falling_state) X \<and> agrees 3 vy (TimeSeries falling_state) Y \<and>
           agrees 3 vz (TimeSeries falling_state) Z"
proof -
  have t: "length (TimeSeries falling_state) = 2" by (simp add: falling_state_def)
  have "(1::nat) \<le> 3" "1 \<le> length (TimeSeries falling_state)"
    "\<not> ((2::nat) \<le> 3 \<and> length (TimeSeries falling_state) = 1)"
    by (simp_all add: t)
  note sh = this
  have s: "N three_params = 3" by (simp add: three_params_simps)
  obtain X where X: "loadAxis (saveNewSim three_params ''sim'' falling_state (\<lambda>f. None)) (''sim'' @ ''X.txt'') 3 2 = Inr X"
    "agrees 3 vx (TimeSeries falling_state) X"
    using loadAxis_round_trip [of "saveNewSim three_params ''sim'' falling_state (\<lambda>f. None)"
        "''sim'' @ ''X.txt''" 3 vx "TimeSeries falling_state",
        OF saved_files(1) [of three_params, unfolded s] sh] unfolding t by blast
  obtain Y where Y: "loadAxis (saveNewSim three_params ''sim'' falling_state (\<lambda>f. None)) (''sim'' @ ''Y.txt'') 3 2 = Inr Y"
    "agrees 3 vy (TimeSeries falling_state) Y"
    using loadAxis_round_trip [of "saveNewSim three_params ''sim'' falling_state (\<lambda>f. None)"
        "''sim'' @ ''Y.txt''" 3 vy "TimeSeries falling_state",
        OF saved_files(2) [of three_params, unfolded s] sh] unfolding t by blast
  obtain Z where Z: "loadAxis (saveNewSim three_params ''sim'' falling_state (\<lambda>f. None)) (''sim'' @ ''Z.txt'') 3 2 = Inr Z"
    "agrees 3 vz (TimeSeries falling_state) Z"
    using loadAxis_round_trip [of "saveNewSim three_params ''sim'' falling_state (\<lambda>f. None)"
        "''sim'' @ ''Z.txt''" 3 vz "TimeSeries falling_state",
        OF saved_files(3) [of three_params, unfolded s] sh] unfolding t by blast
  from X Y Z show ?thesis unfolding loadSavedSim_def by auto
qed

end
